theory Spec2Isabelle
  imports Complex_Main
begin

section \<open>Python values and the operations the reconciler applies to them\<close>

text \<open>
  The report payloads are whatever \<^verbatim>\<open>response.json()\<close> returned: arbitrary JSON values.
  A dict is an association list (its items in order, looked up with \<open>map_of\<close>; the keys
  of a dict are distinct); Python's \<^verbatim>\<open>None\<close> is \<open>JNull\<close>. Python's \<^verbatim>\<open>int\<close> and
  \<^verbatim>\<open>float\<close> are both \<open>JNum\<close> over the reals: arithmetic is exact, so rounding of doubles,
  overflow, infinities and NaN are outside this model. A character of a string is a code
  point below 256 (Latin-1); strings with a code point beyond are not values of this type.
\<close>

datatype json =
    JNull
  | JBool bool
  | JNum real
  | JStr string
  | JList "json list"
  | JDict "(string \<times> json) list"

text \<open>
  The exceptions that can leave \<^verbatim>\<open>reconcile\<close>. \<open>DataUnavailable\<close> is the
  \<^verbatim>\<open>Exception("Failed to retrieve required data from QuickBooks")\<close> of the source;
  \<open>SQLAlchemyError\<close> is whatever \<^verbatim>\<open>db.session.commit()\<close> raises when the database refuses
  a row.
\<close>

datatype py_error =
    AttributeError
  | KeyError
  | IndexError
  | TypeError
  | ValueError
  | DataUnavailable
  | SQLAlchemyError

definition bnd :: "'e + 'a \<Rightarrow> ('a \<Rightarrow> 'e + 'b) \<Rightarrow> 'e + 'b" where
  "bnd m f = (case m of Inl e \<Rightarrow> Inl e | Inr x \<Rightarrow> f x)"

text \<open>\<^verbatim>\<open>for x in xs: body\<close> over an accumulator; an exception in the body ends the loop.\<close>

fun for_loop :: "('a \<Rightarrow> 's \<Rightarrow> 'e + 's) \<Rightarrow> 'a list \<Rightarrow> 's \<Rightarrow> 'e + 's" where
  "for_loop body [] s = Inr s"
| "for_loop body (x # xs) s = bnd (body x s) (for_loop body xs)"

subsection \<open>Strings\<close>

text \<open>\<^verbatim>\<open>p in s\<close> for two strings: \<open>p\<close> occurs in \<open>s\<close> as a contiguous substring.\<close>

fun str_in :: "'a list \<Rightarrow> 'a list \<Rightarrow> bool" where
  "str_in p [] = (p = [])"
| "str_in p (c # cs) = (take (length p) (c # cs) = p \<or> str_in p cs)"

text \<open>
  \<^verbatim>\<open>s.upper()\<close> can leave Latin-1, so its result is a list of code points. Of the code
  points below 256, \<^verbatim>\<open>upper()\<close> changes a to z (97 to 122) and the letters 224 to 254
  other than the division sign 247 by subtracting 32, the micro sign 181 to 924, the sharp
  s 223 to the two letters SS, and 255 to 376; it leaves every other one as it is.
\<close>

definition code_points :: "string \<Rightarrow> nat list" where
  "code_points s = map of_char s"

definition upper_point :: "nat \<Rightarrow> nat list" where
  "upper_point n =
     (if 97 \<le> n \<and> n \<le> 122 then [n - 32]
      else if n = 181 then [924]
      else if n = 223 then [83, 83]
      else if n = 255 then [376]
      else if 224 \<le> n \<and> n \<le> 254 \<and> n \<noteq> 247 then [n - 32]
      else [n])"

definition str_upper :: "string \<Rightarrow> nat list" where
  "str_upper s = concat (map upper_point (code_points s))"

text \<open>\<^verbatim>\<open>'WORD' in s.upper()\<close>, for an upper-cased string \<open>u\<close>.\<close>

definition has_word :: "string \<Rightarrow> nat list \<Rightarrow> bool" where
  "has_word w u = str_in (code_points w) u"

subsection \<open>Truthiness, membership, subscripts, iteration\<close>

text \<open>\<^verbatim>\<open>bool(v)\<close>, as \<^verbatim>\<open>all([...])\<close> and \<^verbatim>\<open>not v\<close> use it.\<close>

fun py_truthy :: "json \<Rightarrow> bool" where
  "py_truthy JNull = False"
| "py_truthy (JBool b) = b"
| "py_truthy (JNum r) = (r \<noteq> 0)"
| "py_truthy (JStr s) = (s \<noteq> [])"
| "py_truthy (JList l) = (l \<noteq> [])"
| "py_truthy (JDict d) = (d \<noteq> [])"

text \<open>\<^verbatim>\<open>k in v\<close> for a string \<open>k\<close>.\<close>

fun py_in :: "string \<Rightarrow> json \<Rightarrow> py_error + bool" where
  "py_in k (JDict d) = Inr (map_of d k \<noteq> None)"
| "py_in k (JList l) = Inr (JStr k \<in> set l)"
| "py_in k (JStr s) = Inr (str_in k s)"
| "py_in k _ = Inl TypeError"

text \<open>\<^verbatim>\<open>v[k]\<close> for a string \<open>k\<close>.\<close>

fun py_getitem :: "json \<Rightarrow> string \<Rightarrow> py_error + json" where
  "py_getitem (JDict d) k = (case map_of d k of None \<Rightarrow> Inl KeyError | Some x \<Rightarrow> Inr x)"
| "py_getitem _ k = Inl TypeError"

text \<open>\<^verbatim>\<open>v[-1]\<close>. The keys of a JSON object are strings, so \<^verbatim>\<open>-1\<close> is never one of them.\<close>

fun py_last :: "json \<Rightarrow> py_error + json" where
  "py_last (JList l) = (if l = [] then Inl IndexError else Inr (last l))"
| "py_last (JStr s) = (if s = [] then Inl IndexError else Inr (JStr [last s]))"
| "py_last (JDict d) = Inl KeyError"
| "py_last _ = Inl TypeError"

text \<open>\<^verbatim>\<open>v.get(k, default)\<close>: only a dict has the method.\<close>

fun py_get :: "json \<Rightarrow> string \<Rightarrow> json \<Rightarrow> py_error + json" where
  "py_get (JDict d) k dflt = Inr (case map_of d k of None \<Rightarrow> dflt | Some x \<Rightarrow> x)"
| "py_get _ k dflt = Inl AttributeError"

text \<open>The items \<^verbatim>\<open>for x in v\<close> visits: the keys of a dict, the characters of a string.\<close>

fun py_iter :: "json \<Rightarrow> py_error + json list" where
  "py_iter (JList l) = Inr l"
| "py_iter (JDict d) = Inr (map (\<lambda>kv. JStr (fst kv)) d)"
| "py_iter (JStr s) = Inr (map (\<lambda>c. JStr [c]) s)"
| "py_iter _ = Inl TypeError"

fun py_len :: "json \<Rightarrow> py_error + nat" where
  "py_len (JList l) = Inr (length l)"
| "py_len (JDict d) = Inr (length d)"
| "py_len (JStr s) = Inr (length s)"
| "py_len _ = Inl TypeError"

text \<open>\<^verbatim>\<open>v.upper()\<close>: only a string has the method.\<close>

fun py_upper :: "json \<Rightarrow> py_error + nat list" where
  "py_upper (JStr s) = Inr (str_upper s)"
| "py_upper _ = Inl AttributeError"

text \<open>\<^verbatim>\<open>v != 0\<close>: \<^verbatim>\<open>False == 0\<close> holds in Python.\<close>

definition py_ne0 :: "json \<Rightarrow> bool" where
  "py_ne0 v = (v \<noteq> JNum 0 \<and> v \<noteq> JBool False)"

text \<open>
  The number a value stands for in arithmetic and ordering (\<^verbatim>\<open>abs(v)\<close>, \<^verbatim>\<open>v < 0\<close>,
  \<^verbatim>\<open>total += v\<close>): a bool is an int; anything else raises \<^verbatim>\<open>TypeError\<close>.
\<close>

fun py_num :: "json \<Rightarrow> py_error + real" where
  "py_num (JNum r) = Inr r"
| "py_num (JBool b) = Inr (if b then 1 else 0)"
| "py_num _ = Inl TypeError"

subsection \<open>\<^verbatim>\<open>float(v)\<close>\<close>

definition is_digit :: "char \<Rightarrow> bool" where
  "is_digit c = (c \<in> set ''0123456789'')"

definition digit_val :: "char \<Rightarrow> nat" where
  "digit_val c =
     (case map_of (zip ''0123456789'' [0, 1, 2, 3, 4, 5, 6, 7, 8, 9]) c of
        None \<Rightarrow> 0
      | Some n \<Rightarrow> n)"

text \<open>The code points below 256 that Python counts as whitespace.\<close>

definition is_space :: "char \<Rightarrow> bool" where
  "is_space c =
     (c \<in> set [CHR 0x09, CHR 0x0A, CHR 0x0B, CHR 0x0C, CHR 0x0D,
                CHR 0x1C, CHR 0x1D, CHR 0x1E, CHR 0x1F, CHR 0x20, CHR 0x85, CHR 0xA0])"

text \<open>The longest prefix \<^verbatim>\<open>digit (["_"] digit)*\<close>, without its underscores, and the rest.\<close>

fun take_digits :: "string \<Rightarrow> string \<times> string" where
  "take_digits [] = ([], [])"
| "take_digits [c] = (if is_digit c then ([c], []) else ([], [c]))"
| "take_digits (c # d # cs) =
     (if \<not> is_digit c then ([], c # d # cs)
      else if d = CHR ''_'' then
        (case cs of
           [] \<Rightarrow> ([c], d # cs)
         | e # es \<Rightarrow>
             if is_digit e then (case take_digits cs of (ds, r) \<Rightarrow> (c # ds, r))
             else ([c], d # cs))
      else (case take_digits (d # cs) of (ds, r) \<Rightarrow> (c # ds, r)))"

definition digits_val :: "string \<Rightarrow> nat" where
  "digits_val ds = foldl (\<lambda>a c. 10 * a + digit_val c) 0 ds"

definition take_sign :: "string \<Rightarrow> bool \<times> string" where
  "take_sign s =
     (case s of
        [] \<Rightarrow> (False, [])
      | c # cs \<Rightarrow>
          if c = CHR ''-'' then (True, cs) else if c = CHR ''+'' then (False, cs) else (False, s))"

definition strip :: "string \<Rightarrow> string" where
  "strip s = rev (dropWhile is_space (rev (dropWhile is_space s)))"

text \<open>
  The exponent part \<^verbatim>\<open>("e"|"E") ["+"|"-"] digitpart\<close> up to the end of the string; an empty
  rest is exponent 0.
\<close>

definition parse_exponent :: "string \<Rightarrow> int option" where
  "parse_exponent s =
     (case s of
        [] \<Rightarrow> Some 0
      | c # cs \<Rightarrow>
          if c = CHR ''e'' \<or> c = CHR ''E'' then
            (case take_sign cs of (neg, t) \<Rightarrow>
               (case take_digits t of (ds, r) \<Rightarrow>
                  if ds = [] \<or> r \<noteq> [] then None
                  else Some (if neg then - int (digits_val ds) else int (digits_val ds))))
          else None)"

text \<open>
  \<^verbatim>\<open>float(s)\<close> for a string: surrounding whitespace, a sign, a decimal number with an
  optional fraction and exponent. The literals \<^verbatim>\<open>inf\<close>, \<^verbatim>\<open>infinity\<close> and \<^verbatim>\<open>nan\<close> have
  no value among the reals and are not read.
\<close>

definition float_of_str :: "string \<Rightarrow> real option" where
  "float_of_str s =
     (case take_sign (strip s) of (neg, t1) \<Rightarrow>
       (case take_digits t1 of (ip, t2) \<Rightarrow>
         (case (case t2 of
                  [] \<Rightarrow> ([], t2)
                | c # cs \<Rightarrow> if c = CHR ''.'' then take_digits cs else ([], t2)) of (fp, t3) \<Rightarrow>
            if ip = [] \<and> fp = [] then None
            else
              (case parse_exponent t3 of
                 None \<Rightarrow> None
               | Some ex \<Rightarrow>
                   Some ((if neg then - 1 else 1)
                         * (real (digits_val ip) + real (digits_val fp) / 10 ^ length fp)
                         * (if ex < 0 then 1 / 10 ^ nat (- ex) else 10 ^ nat ex))))))"

fun py_float :: "json \<Rightarrow> py_error + real" where
  "py_float (JNum r) = Inr r"
| "py_float (JBool b) = Inr (if b then 1 else 0)"
| "py_float (JStr s) = (case float_of_str s of None \<Rightarrow> Inl ValueError | Some r \<Rightarrow> Inr r)"
| "py_float _ = Inl TypeError"

subsection \<open>Formatting a number: \<^verbatim>\<open>f"{x:.2f}"\<close> and \<^verbatim>\<open>f"{x:,.2f}"\<close>\<close>

definition digit_char :: "nat \<Rightarrow> char" where
  "digit_char n = ''0123456789'' ! (n mod 10)"

fun show_nat :: "nat \<Rightarrow> string" where
  "show_nat n = (if n < 10 then [digit_char n] else show_nat (n div 10) @ [digit_char n])"

text \<open>Nearest integer, ties to even: how the conversion of \<^verbatim>\<open>.2f\<close> rounds.\<close>

definition round_half_even :: "real \<Rightarrow> int" where
  "round_half_even y =
     (let f = \<lfloor>y\<rfloor>; d = y - of_int f
      in if d < 1 / 2 then f else if 1 / 2 < d then f + 1 else if even f then f else f + 1)"

text \<open>Commas between groups of three digits, counted from the right.\<close>

fun group3 :: "string \<Rightarrow> string" where
  "group3 ds =
     (if length ds \<le> 3 then ds
      else group3 (take (length ds - 3) ds) @ '','' @ drop (length ds - 3) ds)"

definition fmt_parts :: "real \<Rightarrow> string \<times> string \<times> string" where
  "fmt_parts x =
     (let n = nat (round_half_even (\<bar>x\<bar> * 100))
      in (if x < 0 then ''-'' else '''', show_nat (n div 100),
          [digit_char (n div 10), digit_char n]))"

definition fmt_2f :: "real \<Rightarrow> string" where
  "fmt_2f x = (case fmt_parts x of (sg, ip, fp) \<Rightarrow> sg @ ip @ ''.'' @ fp)"

definition fmt_comma_2f :: "real \<Rightarrow> string" where
  "fmt_comma_2f x = (case fmt_parts x of (sg, ip, fp) \<Rightarrow> sg @ group3 ip @ ''.'' @ fp)"

section \<open>The reconciler's data\<close>

text \<open>An entry of \<^verbatim>\<open>self.adjustments\<close>: the dict a check appends.\<close>

record adjustment =
  account_name :: json
  original_amount :: real
  adjusted_amount :: real
  adjustment_amount :: real
  reason :: string
  adjustment_type :: string

text \<open>A date is its ordinal day number.\<close>

type_synonym date = nat

text \<open>The rows \<^verbatim>\<open>db.session\<close> holds: \<^verbatim>\<open>BalanceSheetSnapshot\<close> and \<^verbatim>\<open>Adjustment\<close>.\<close>

record snapshot_row =
  snap_id :: nat
  snap_date :: date
  snap_period :: date
  snap_total_assets :: real
  snap_total_liabilities :: real
  snap_total_equity :: real
  snap_is_balanced :: bool
  snap_adjustments_count :: nat
  snap_status :: string

record adjustment_row =
  reconciliation_log_id :: nat
  row_fields :: adjustment

text \<open>
  What a run reads and writes: the two attributes of the \<^verbatim>\<open>BalanceSheetReconciler\<close>
  instance, set to \<^verbatim>\<open>[]\<close> and \<^verbatim>\<open>{}\<close> by \<^verbatim>\<open>__init__\<close>, and the two tables of the database.
\<close>

record state =
  adjustments :: "adjustment list"
  reconciliation_checks :: "string \<rightharpoonup> real"
  db_snapshots :: "snapshot_row list"
  db_adjustments :: "adjustment_row list"

text \<open>\<^verbatim>\<open>BalanceSheetReconciler.__init__\<close>, beside the database as it is.\<close>

definition init :: "snapshot_row list \<Rightarrow> adjustment_row list \<Rightarrow> state" where
  "init snaps rows =
     \<lparr>adjustments = [], reconciliation_checks = Map.empty,
      db_snapshots = snaps, db_adjustments = rows\<rparr>"

text \<open>The nested dicts \<^verbatim>\<open>assets\<close>, \<^verbatim>\<open>liabilities\<close> and \<^verbatim>\<open>equity\<close> of the summary.\<close>

record buckets =
  assets_current :: real
  assets_fixed :: real
  assets_other :: real
  liabilities_current :: real
  liabilities_long_term :: real
  equity_owners_equity :: real
  equity_retained_earnings :: real
  equity_net_income :: real

record summary =
  sheet :: buckets
  total_assets :: real
  total_liabilities :: real
  total_equity :: real

text \<open>The dict \<^verbatim>\<open>reconcile\<close> returns.\<close>

record result =
  summary_balance_sheet :: summary
  res_adjustments :: "adjustment list"
  res_reconciliation_checks :: "string \<rightharpoonup> real"
  is_balanced :: bool

text \<open>
  The collaborator \<^verbatim>\<open>self.qbo_api\<close>, by the methods \<^verbatim>\<open>reconcile\<close> calls on it. A fetch
  returns a JSON value, \<open>JNull\<close> for \<^verbatim>\<open>None\<close>. \<open>get_bank_accounts\<close> is \<open>None\<close> when the
  collaborator's class defines no such method.
\<close>

record qbo_api =
  get_trial_balance :: "date option \<Rightarrow> json"
  get_balance_sheet_report :: "date option \<Rightarrow> json"
  get_chart_of_accounts :: json
  get_open_ar :: json
  get_open_ap :: json
  get_bank_accounts :: "json option"

text \<open>
  What the QuickBooks service answers to the five requests of class \<^verbatim>\<open>QuickBooksAPI\<close>; each
  method returns the decoded body, or \<^verbatim>\<open>None\<close> after a \<^verbatim>\<open>RequestException\<close>.
\<close>

record qbo_service =
  trial_balance_body :: "date option \<Rightarrow> json"
  balance_sheet_body :: "date option \<Rightarrow> json"
  account_query_body :: json
  customer_query_body :: json
  vendor_query_body :: json

text \<open>Class \<^verbatim>\<open>QuickBooksAPI\<close>: it defines no method \<^verbatim>\<open>get_bank_accounts\<close>.\<close>

definition QuickBooksAPI :: "qbo_service \<Rightarrow> qbo_api" where
  "QuickBooksAPI srv =
     \<lparr>get_trial_balance = trial_balance_body srv,
      get_balance_sheet_report = balance_sheet_body srv,
      get_chart_of_accounts = account_query_body srv,
      get_open_ar = customer_query_body srv,
      get_open_ap = vendor_query_body srv,
      get_bank_accounts = None\<rparr>"

text \<open>
  A step of a run either raises, leaving the state as it was at that moment (\<open>Inl\<close>), or
  completes (\<open>Inr\<close>). \<open>raise_in st m\<close> runs a computation that touches no state.
\<close>

definition raise_in :: "state \<Rightarrow> py_error + 'a \<Rightarrow> (py_error \<times> state) + 'a" where
  "raise_in st m = (case m of Inl e \<Rightarrow> Inl (e, st) | Inr x \<Rightarrow> Inr x)"

definition append_adjustment :: "adjustment \<Rightarrow> state \<Rightarrow> state" where
  "append_adjustment a st = st\<lparr>adjustments := adjustments st @ [a]\<rparr>"

definition set_check :: "string \<Rightarrow> real \<Rightarrow> state \<Rightarrow> state" where
  "set_check k v st = st\<lparr>reconciliation_checks := (reconciliation_checks st)(k \<mapsto> v)\<rparr>"

section \<open>The six checks\<close>

subsection \<open>\<^verbatim>\<open>_validate_trial_balance\<close>\<close>

text \<open>The body of the loop over \<^verbatim>\<open>row['ColData']\<close>, on the pair of running totals.\<close>

definition tb_col :: "json \<Rightarrow> real \<times> real \<Rightarrow> py_error + real \<times> real" where
  "tb_col col acc =
     bnd (py_in ''value'' col) (\<lambda>has_value.
       if \<not> has_value then Inr acc
       else bnd (py_get col ''value'' JNull) (\<lambda>v.
         if \<not> py_ne0 v then Inr acc
         else bnd (py_get col ''id'' JNull) (\<lambda>tag.
           if tag = JStr ''Debit'' then
             bnd (py_getitem col ''value'') (\<lambda>w.
               bnd (py_float w) (\<lambda>x. Inr (fst acc + x, snd acc)))
           else if tag = JStr ''Credit'' then
             bnd (py_getitem col ''value'') (\<lambda>w.
               bnd (py_float w) (\<lambda>x. Inr (fst acc, snd acc + x)))
           else Inr acc)))"

definition tb_row :: "json \<Rightarrow> real \<times> real \<Rightarrow> py_error + real \<times> real" where
  "tb_row row acc =
     bnd (py_in ''ColData'' row) (\<lambda>has_cols.
       if has_cols then
         bnd (py_getitem row ''ColData'') (\<lambda>cd.
           bnd (py_iter cd) (\<lambda>cols. for_loop tb_col cols acc))
       else Inr acc)"

text \<open>\<^verbatim>\<open>(total_debits, total_credits)\<close> after the loop over \<^verbatim>\<open>trial_balance['Rows']\<close>.\<close>

definition tb_totals :: "json \<Rightarrow> py_error + real \<times> real" where
  "tb_totals trial_balance =
     bnd (py_getitem trial_balance ''Rows'') (\<lambda>rs.
       bnd (py_iter rs) (\<lambda>rows. for_loop tb_row rows (0, 0)))"

definition validate_trial_balance :: "json \<Rightarrow> state \<Rightarrow> (py_error \<times> state) + state" where
  "validate_trial_balance trial_balance st =
     bnd (raise_in st (py_in ''Rows'' trial_balance)) (\<lambda>has_rows.
       if \<not> has_rows then Inr st
       else bnd (raise_in st (tb_totals trial_balance)) (\<lambda>totals.
         let difference = \<bar>fst totals - snd totals\<bar>;
             st1 = set_check ''trial_balance_difference'' difference st
         in if difference > 0.01 then
              Inr (append_adjustment
                     \<lparr>account_name = JStr ''Trial Balance Adjustment'',
                      original_amount = difference,
                      adjusted_amount = 0,
                      adjustment_amount = - difference,
                      reason = ''Trial balance out of balance by $'' @ fmt_2f difference,
                      adjustment_type = ''correction''\<rparr> st1)
            else Inr st1))"

subsection \<open>The two-level walk over the balance sheet\<close>

text \<open>\<^verbatim>\<open>'ColData' in sub_row and len(sub_row['ColData']) > 1\<close>\<close>

definition has_columns :: "json \<Rightarrow> py_error + bool" where
  "has_columns sub_row =
     bnd (py_in ''ColData'' sub_row) (\<lambda>has_cols.
       if \<not> has_cols then Inr False
       else bnd (py_getitem sub_row ''ColData'') (\<lambda>cd.
         bnd (py_len cd) (\<lambda>n. Inr (n > 1))))"

text \<open>\<^verbatim>\<open>float(sub_row['ColData'][-1].get('value', 0))\<close>\<close>

definition last_value :: "json \<Rightarrow> py_error + real" where
  "last_value sub_row =
     bnd (py_getitem sub_row ''ColData'') (\<lambda>cd.
       bnd (py_last cd) (\<lambda>col.
         bnd (py_get col ''value'' (JNum 0)) (\<lambda>v. py_float v)))"

text \<open>
  \<^verbatim>\<open>for row in balance_sheet['Rows']: if 'Rows' in row: for sub_row in row['Rows']: body\<close>,
  the loop of \<^verbatim>\<open>_verify_balance_sheet_totals\<close> and \<^verbatim>\<open>_generate_summary_balance_sheet\<close>.
\<close>

definition walk_row :: "(json \<Rightarrow> 's \<Rightarrow> py_error + 's) \<Rightarrow> json \<Rightarrow> 's \<Rightarrow> py_error + 's" where
  "walk_row body row acc =
     bnd (py_in ''Rows'' row) (\<lambda>has_rows.
       if has_rows then
         bnd (py_getitem row ''Rows'') (\<lambda>rs.
           bnd (py_iter rs) (\<lambda>sub_rows. for_loop body sub_rows acc))
       else Inr acc)"

definition walk :: "(json \<Rightarrow> 's \<Rightarrow> py_error + 's) \<Rightarrow> json \<Rightarrow> 's \<Rightarrow> py_error + 's" where
  "walk body balance_sheet acc =
     bnd (py_getitem balance_sheet ''Rows'') (\<lambda>rs.
       bnd (py_iter rs) (\<lambda>rows. for_loop (walk_row body) rows acc))"

subsection \<open>\<^verbatim>\<open>_verify_balance_sheet_totals\<close>\<close>

text \<open>The loop body, on \<^verbatim>\<open>(total_assets, total_liabilities, total_equity)\<close>.\<close>

definition bs_sub_row :: "json \<Rightarrow> real \<times> real \<times> real \<Rightarrow> py_error + real \<times> real \<times> real" where
  "bs_sub_row sub_row acc =
     bnd (has_columns sub_row) (\<lambda>ok.
       if \<not> ok then Inr acc
       else bnd (py_get sub_row ''group'' (JStr '''')) (\<lambda>section_name.
         bnd (last_value sub_row) (\<lambda>total_value.
           bnd (py_upper section_name) (\<lambda>u.
             case acc of (a, l, e) \<Rightarrow>
               if has_word ''ASSET'' u then Inr (total_value, l, e)
               else if has_word ''LIABILITY'' u then Inr (a, total_value, e)
               else if has_word ''EQUITY'' u then Inr (a, l, total_value)
               else Inr acc))))"

definition verify_balance_sheet_totals :: "json \<Rightarrow> state \<Rightarrow> (py_error \<times> state) + state" where
  "verify_balance_sheet_totals balance_sheet st =
     bnd (raise_in st (py_in ''Rows'' balance_sheet)) (\<lambda>has_rows.
       if \<not> has_rows then Inr st
       else bnd (raise_in st (walk bs_sub_row balance_sheet (0, 0, 0))) (\<lambda>totals.
         case totals of (a, l, e) \<Rightarrow>
           let difference = \<bar>a - (l + e)\<bar>;
               st1 = set_check ''balance_sheet_difference'' difference st
           in if difference > 0.01 then
                Inr (append_adjustment
                       \<lparr>account_name = JStr ''Balance Sheet Adjustment'',
                        original_amount = difference,
                        adjusted_amount = 0,
                        adjustment_amount = - difference,
                        reason = ''Balance sheet out of balance by $'' @ fmt_2f difference,
                        adjustment_type = ''correction''\<rparr> st1)
              else Inr st1))"

subsection \<open>\<^verbatim>\<open>_check_account_balances\<close>\<close>

text \<open>The string an f-string puts for a \<^verbatim>\<open>str\<close> value; only strings reach the call below.\<close>

fun py_str :: "json \<Rightarrow> string" where
  "py_str (JStr s) = s"
| "py_str _ = []"

text \<open>The body of the loop over the accounts; the append happens inside the loop.\<close>

definition check_account :: "json \<Rightarrow> state \<Rightarrow> (py_error \<times> state) + state" where
  "check_account account st =
     bnd (raise_in st (py_get account ''Name'' (JStr ''''))) (\<lambda>name.
       bnd (raise_in st (py_get account ''AccountType'' (JStr ''''))) (\<lambda>account_type.
         bnd (raise_in st (py_get account ''CurrentBalance'' (JNum 0))) (\<lambda>current_balance.
           if account_type \<in> set [JStr ''Accounts Receivable'', JStr ''Cash'', JStr ''Inventory'']
           then
             bnd (raise_in st (py_num current_balance)) (\<lambda>b.
               if b < 0 then
                 Inr (append_adjustment
                        \<lparr>account_name = name,
                         original_amount = b,
                         adjusted_amount = \<bar>b\<bar>,
                         adjustment_amount = \<bar>b\<bar> * 2,
                         reason = ''Negative balance in '' @ py_str account_type @ '' account'',
                         adjustment_type = ''correction''\<rparr> st)
               else Inr st)
           else Inr st)))"

definition check_account_balances ::
    "json \<Rightarrow> json \<Rightarrow> state \<Rightarrow> (py_error \<times> state) + state" where
  "check_account_balances chart_of_accounts trial_balance st =
     bnd (raise_in st (py_in ''QueryResponse'' chart_of_accounts)) (\<lambda>has_qr.
       if \<not> has_qr then Inr st
       else bnd (raise_in st (py_getitem chart_of_accounts ''QueryResponse'')) (\<lambda>qr.
         bnd (raise_in st (py_get qr ''Account'' (JList []))) (\<lambda>accs.
           bnd (raise_in st (py_iter accs)) (\<lambda>accounts.
             for_loop check_account accounts st))))"

subsection \<open>\<^verbatim>\<open>_reconcile_bank_accounts\<close>\<close>

definition bank_account :: "json \<Rightarrow> state \<Rightarrow> (py_error \<times> state) + state" where
  "bank_account account st =
     bnd (raise_in st (py_get account ''Name'' (JStr ''''))) (\<lambda>name.
       bnd (raise_in st (py_get account ''CurrentBalance'' (JNum 0))) (\<lambda>ledger_balance.
         bnd (raise_in st (py_num ledger_balance)) (\<lambda>b.
           if \<bar>b\<bar> > 1000000 then
             Inr (append_adjustment
                    \<lparr>account_name = name,
                     original_amount = b,
                     adjusted_amount = b,
                     adjustment_amount = 0,
                     reason = ''Large bank balance requires manual review: $'' @ fmt_comma_2f b,
                     adjustment_type = ''info''\<rparr> st)
           else Inr st)))"

definition reconcile_bank_accounts ::
    "json \<Rightarrow> json \<Rightarrow> state \<Rightarrow> (py_error \<times> state) + state" where
  "reconcile_bank_accounts bank_accounts trial_balance st =
     (if \<not> py_truthy bank_accounts then Inr st
      else bnd (raise_in st (py_in ''QueryResponse'' bank_accounts)) (\<lambda>has_qr.
        if \<not> has_qr then Inr st
        else bnd (raise_in st (py_getitem bank_accounts ''QueryResponse'')) (\<lambda>qr.
          bnd (raise_in st (py_get qr ''Account'' (JList []))) (\<lambda>accs.
            bnd (raise_in st (py_iter accs)) (\<lambda>accounts.
              for_loop bank_account accounts st)))))"

subsection \<open>\<^verbatim>\<open>_verify_open_items\<close>\<close>

text \<open>\<^verbatim>\<open>total += item.get('Balance', 0)\<close>\<close>

definition add_balance :: "json \<Rightarrow> real \<Rightarrow> py_error + real" where
  "add_balance item total_so_far =
     bnd (py_get item ''Balance'' (JNum 0)) (\<lambda>b.
       bnd (py_num b) (\<lambda>x. Inr (total_so_far + x)))"

text \<open>
  One of the two totals: \<open>entity\<close> is \<^verbatim>\<open>'Customer'\<close> for \<^verbatim>\<open>open_ar\<close> and \<^verbatim>\<open>'Vendor'\<close>
  for \<^verbatim>\<open>open_ap\<close>.
\<close>

definition open_total :: "string \<Rightarrow> json \<Rightarrow> py_error + real" where
  "open_total entity payload =
     (if \<not> py_truthy payload then Inr 0
      else bnd (py_in ''QueryResponse'' payload) (\<lambda>has_qr.
        if \<not> has_qr then Inr 0
        else bnd (py_getitem payload ''QueryResponse'') (\<lambda>qr.
          bnd (py_get qr entity (JList [])) (\<lambda>xs.
            bnd (py_iter xs) (\<lambda>items. for_loop add_balance items 0)))))"

definition verify_open_items :: "json \<Rightarrow> json \<Rightarrow> state \<Rightarrow> (py_error \<times> state) + state" where
  "verify_open_items open_ar open_ap st =
     bnd (raise_in st (open_total ''Customer'' open_ar)) (\<lambda>total_ar.
       bnd (raise_in st (open_total ''Vendor'' open_ap)) (\<lambda>total_ap.
         let st1 = set_check ''total_open_ap'' total_ap (set_check ''total_open_ar'' total_ar st)
         in if total_ar > 500000 then
              Inr (append_adjustment
                     \<lparr>account_name = JStr ''Accounts Receivable'',
                      original_amount = total_ar,
                      adjusted_amount = total_ar,
                      adjustment_amount = 0,
                      reason = ''High A/R balance requires review: $'' @ fmt_comma_2f total_ar,
                      adjustment_type = ''info''\<rparr> st1)
            else Inr st1))"

subsection \<open>\<^verbatim>\<open>_validate_retained_earnings\<close>\<close>

text \<open>
  The inner loop over \<^verbatim>\<open>row['Rows']\<close>: \<^verbatim>\<open>break\<close> leaves it at the first sub-row whose label
  has \<^verbatim>\<open>RETAINED\<close>; without one, \<^verbatim>\<open>retained_earnings\<close> keeps its value.
\<close>

fun re_sub_rows :: "json list \<Rightarrow> real \<Rightarrow> py_error + real" where
  "re_sub_rows [] retained_earnings = Inr retained_earnings"
| "re_sub_rows (sub_row # rest) retained_earnings =
     bnd (has_columns sub_row) (\<lambda>ok.
       if \<not> ok then re_sub_rows rest retained_earnings
       else bnd (py_get sub_row ''group'' (JStr '''')) (\<lambda>section_name.
         bnd (py_upper section_name) (\<lambda>u.
           if has_word ''RETAINED'' u then last_value sub_row
           else re_sub_rows rest retained_earnings)))"

text \<open>The body of the outer loop, which the \<^verbatim>\<open>break\<close> does not leave.\<close>

definition re_row :: "json \<Rightarrow> real \<Rightarrow> py_error + real" where
  "re_row row retained_earnings =
     bnd (py_in ''Rows'' row) (\<lambda>has_rows.
       if has_rows then
         bnd (py_getitem row ''Rows'') (\<lambda>rs.
           bnd (py_iter rs) (\<lambda>sub_rows. re_sub_rows sub_rows retained_earnings))
       else Inr retained_earnings)"

definition retained_earnings_of :: "json \<Rightarrow> py_error + real" where
  "retained_earnings_of balance_sheet =
     bnd (py_getitem balance_sheet ''Rows'') (\<lambda>rs.
       bnd (py_iter rs) (\<lambda>rows. for_loop re_row rows 0))"

definition validate_retained_earnings ::
    "json \<Rightarrow> json \<Rightarrow> state \<Rightarrow> (py_error \<times> state) + state" where
  "validate_retained_earnings balance_sheet trial_balance st =
     bnd (raise_in st (py_in ''Rows'' balance_sheet)) (\<lambda>has_rows.
       if \<not> has_rows then Inr st
       else bnd (raise_in st (retained_earnings_of balance_sheet)) (\<lambda>retained_earnings.
         if retained_earnings < 0 then
           Inr (append_adjustment
                  \<lparr>account_name = JStr ''Retained Earnings'',
                   original_amount = retained_earnings,
                   adjusted_amount = retained_earnings,
                   adjustment_amount = 0,
                   reason = ''Negative retained earnings: $'' @ fmt_comma_2f retained_earnings,
                   adjustment_type = ''info''\<rparr> st)
         else Inr st))"

section \<open>\<^verbatim>\<open>_generate_summary_balance_sheet\<close>\<close>

text \<open>The assignment the label selects, on the three nested dicts.\<close>

definition categorize :: "nat list \<Rightarrow> real \<Rightarrow> buckets \<Rightarrow> buckets" where
  "categorize u total_value b =
     (if has_word ''ASSET'' u then
        (if has_word ''CURRENT'' u then b\<lparr>assets_current := total_value\<rparr>
         else if has_word ''FIXED'' u \<or> has_word ''PROPERTY'' u then b\<lparr>assets_fixed := total_value\<rparr>
         else b\<lparr>assets_other := total_value\<rparr>)
      else if has_word ''LIABILITY'' u then
        (if has_word ''CURRENT'' u then b\<lparr>liabilities_current := total_value\<rparr>
         else b\<lparr>liabilities_long_term := total_value\<rparr>)
      else if has_word ''EQUITY'' u then
        (if has_word ''RETAINED'' u then b\<lparr>equity_retained_earnings := total_value\<rparr>
         else b\<lparr>equity_owners_equity := total_value\<rparr>)
      else b)"

definition summary_sub_row :: "json \<Rightarrow> buckets \<Rightarrow> py_error + buckets" where
  "summary_sub_row sub_row b =
     bnd (has_columns sub_row) (\<lambda>ok.
       if \<not> ok then Inr b
       else bnd (py_get sub_row ''group'' (JStr '''')) (\<lambda>name.
         bnd (last_value sub_row) (\<lambda>total_value.
           bnd (py_upper name) (\<lambda>u. Inr (categorize u total_value b)))))"

definition empty_buckets :: buckets where
  "empty_buckets =
     \<lparr>assets_current = 0, assets_fixed = 0, assets_other = 0,
      liabilities_current = 0, liabilities_long_term = 0,
      equity_owners_equity = 0, equity_retained_earnings = 0, equity_net_income = 0\<rparr>"

definition with_totals :: "buckets \<Rightarrow> summary" where
  "with_totals b =
     \<lparr>sheet = b,
      total_assets = assets_current b + assets_fixed b + assets_other b,
      total_liabilities = liabilities_current b + liabilities_long_term b,
      total_equity = equity_owners_equity b + equity_retained_earnings b\<rparr>"

text \<open>\<open>None\<close> is the empty dict \<^verbatim>\<open>{}\<close> returned for a payload without \<^verbatim>\<open>'Rows'\<close>.\<close>

definition generate_summary_balance_sheet :: "json \<Rightarrow> py_error + summary option" where
  "generate_summary_balance_sheet balance_sheet =
     bnd (py_in ''Rows'' balance_sheet) (\<lambda>has_rows.
       if \<not> has_rows then Inr None
       else bnd (walk summary_sub_row balance_sheet empty_buckets) (\<lambda>b.
         Inr (Some (with_totals b))))"

section \<open>\<^verbatim>\<open>reconcile\<close>\<close>

text \<open>
  What the database (SQLite, through SQLAlchemy) accepts in the column \<^verbatim>\<open>account_name\<close>,
  declared \<^verbatim>\<open>nullable=False\<close>: a string, a number or a bool is bound and stored; \<^verbatim>\<open>None\<close>
  breaks the NOT NULL constraint, and a list or a dict cannot be bound to a parameter. The
  other columns of an adjustment receive numbers and strings. Numbers beyond the range of
  the database's integers and doubles are, as overflow, outside this model.
\<close>

fun storable :: "json \<Rightarrow> bool" where
  "storable (JStr s) = True"
| "storable (JNum r) = True"
| "storable (JBool b) = True"
| "storable _ = False"

text \<open>
  \<^verbatim>\<open>db.session.add(reconciliation_log); db.session.commit()\<close>, which stores the snapshot
  under the next id, then the loop that adds one \<^verbatim>\<open>Adjustment\<close> row for each entry of
  \<^verbatim>\<open>self.adjustments\<close> and the second \<^verbatim>\<open>db.session.commit()\<close>. The second commit stores all
  the rows or, when the database refuses one of them, none and raises: the snapshot, already
  committed, stays.
\<close>

definition persist :: "date \<Rightarrow> summary \<Rightarrow> bool \<Rightarrow> state \<Rightarrow> (py_error \<times> state) + state" where
  "persist day sm balanced st =
     (let log_id = Suc (length (db_snapshots st));
          reconciliation_log =
            \<lparr>snap_id = log_id, snap_date = day, snap_period = day,
             snap_total_assets = total_assets sm,
             snap_total_liabilities = total_liabilities sm,
             snap_total_equity = total_equity sm,
             snap_is_balanced = balanced,
             snap_adjustments_count = length (adjustments st),
             snap_status = ''completed''\<rparr>;
          st1 = st\<lparr>db_snapshots := db_snapshots st @ [reconciliation_log]\<rparr>
      in if list_all (\<lambda>adj. storable (account_name adj)) (adjustments st)
         then Inr (st1\<lparr>db_adjustments := db_adjustments st
                     @ map (\<lambda>adj. \<lparr>reconciliation_log_id = log_id, row_fields = adj\<rparr>)
                         (adjustments st)\<rparr>)
         else Inl (SQLAlchemyError, st1))"

text \<open>
  \<open>today\<close> is \<^verbatim>\<open>datetime.now().date()\<close>. Indexing the empty summary with
  \<^verbatim>\<open>'total_assets'\<close> raises \<^verbatim>\<open>KeyError\<close>.
\<close>

definition reconcile ::
    "qbo_api \<Rightarrow> date \<Rightarrow> date option \<Rightarrow> state \<Rightarrow> (py_error \<times> state) + (result \<times> state)" where
  "reconcile api today as_of_date st =
     (let trial_balance = get_trial_balance api as_of_date;
          balance_sheet = get_balance_sheet_report api as_of_date;
          chart_of_accounts = get_chart_of_accounts api;
          open_ar = get_open_ar api;
          open_ap = get_open_ap api
      in case get_bank_accounts api of
           None \<Rightarrow> Inl (AttributeError, st)
         | Some bank_accounts \<Rightarrow>
             if \<not> (py_truthy trial_balance \<and> py_truthy balance_sheet
                    \<and> py_truthy chart_of_accounts)
             then Inl (DataUnavailable, st)
             else
               bnd (validate_trial_balance trial_balance st) (\<lambda>s1.
               bnd (verify_balance_sheet_totals balance_sheet s1) (\<lambda>s2.
               bnd (check_account_balances chart_of_accounts trial_balance s2) (\<lambda>s3.
               bnd (reconcile_bank_accounts bank_accounts trial_balance s3) (\<lambda>s4.
               bnd (verify_open_items open_ar open_ap s4) (\<lambda>s5.
               bnd (validate_retained_earnings balance_sheet trial_balance s5) (\<lambda>s6.
               bnd (raise_in s6 (generate_summary_balance_sheet balance_sheet)) (\<lambda>summary_bs.
                 case summary_bs of
                   None \<Rightarrow> Inl (KeyError, s6)
                 | Some sm \<Rightarrow>
                     let balanced =
                           (\<bar>total_assets sm - (total_liabilities sm + total_equity sm)\<bar> < 0.01)
                     in bnd (persist (case as_of_date of None \<Rightarrow> today | Some d \<Rightarrow> d)
                               sm balanced s6) (\<lambda>s7.
                          Inr (\<lparr>summary_balance_sheet = sm,
                                res_adjustments = adjustments s7,
                                res_reconciliation_checks = reconciliation_checks s7,
                                is_balanced = balanced\<rparr>, s7))))))))))"

section \<open>What the specification says, for comparison with the code\<close>

text \<open>Total readings of a payload: a field of an object, and the number a value holds.\<close>

definition field :: "string \<Rightarrow> json \<Rightarrow> json \<Rightarrow> json" where
  "field k dflt v = (case py_get v k dflt of Inl e \<Rightarrow> dflt | Inr x \<Rightarrow> x)"

definition number_of :: "json \<Rightarrow> real" where
  "number_of v = (case py_num v of Inl e \<Rightarrow> 0 | Inr x \<Rightarrow> x)"

subsection \<open>Account balance sanity check\<close>



definition current_balance :: "json \<Rightarrow> real" where
  "current_balance account = number_of (field ''CurrentBalance'' (JNum 0) account)"



subsection \<open>Trial balance validation\<close>

text \<open>The rows of a report, and the columns of a row that has any.\<close>

definition rows_of :: "json \<Rightarrow> json list" where
  "rows_of report =
     (case bnd (py_getitem report ''Rows'') py_iter of Inl e \<Rightarrow> [] | Inr rows \<Rightarrow> rows)"




subsection \<open>Summary balance sheet\<close>

text \<open>The seven buckets the builder fills, and the one a group label selects.\<close>

datatype bucket =
    AssetsCurrent | AssetsFixed | AssetsOther
  | LiabilitiesCurrent | LiabilitiesLongTerm
  | OwnersEquity | RetainedEarnings

fun bucket_value :: "bucket \<Rightarrow> buckets \<Rightarrow> real" where
  "bucket_value AssetsCurrent b = assets_current b"
| "bucket_value AssetsFixed b = assets_fixed b"
| "bucket_value AssetsOther b = assets_other b"
| "bucket_value LiabilitiesCurrent b = liabilities_current b"
| "bucket_value LiabilitiesLongTerm b = liabilities_long_term b"
| "bucket_value OwnersEquity b = equity_owners_equity b"
| "bucket_value RetainedEarnings b = equity_retained_earnings b"

text \<open>
  Substring match on the upper-cased label, in the priority order of the specification.
\<close>

definition classify :: "string \<Rightarrow> bucket option" where
  "classify label =
     (let u = str_upper label in
      if has_word ''ASSET'' u then
        Some (if has_word ''CURRENT'' u then AssetsCurrent
              else if has_word ''FIXED'' u \<or> has_word ''PROPERTY'' u then AssetsFixed
              else AssetsOther)
      else if has_word ''LIABILITY'' u then
        Some (if has_word ''CURRENT'' u then LiabilitiesCurrent else LiabilitiesLongTerm)
      else if has_word ''EQUITY'' u then
        Some (if has_word ''RETAINED'' u then RetainedEarnings else OwnersEquity)
      else None)"

text \<open>The second-level rows, in traversal order.\<close>

definition sub_rows_of :: "json \<Rightarrow> json list" where
  "sub_rows_of balance_sheet =
     concat (map (\<lambda>row. if py_in ''Rows'' row = Inr True then rows_of row else [])
               (rows_of balance_sheet))"

text \<open>The number in a column: its \<^verbatim>\<open>value\<close>, 0 when it has none.\<close>

definition cell_value :: "json \<Rightarrow> real" where
  "cell_value col = (case py_float (field ''value'' (JNum 0) col) of Inl e \<Rightarrow> 0 | Inr x \<Rightarrow> x)"

text \<open>
  A second-level row that is an object with a list of at least two columns gives its group
  label, empty when it has none, and the number in its last column; any other row gives
  nothing.
\<close>

fun group_total :: "json \<Rightarrow> (string \<times> real) option" where
  "group_total (JDict d) =
     (case map_of d ''ColData'' of
        Some (JList cols) \<Rightarrow>
          if 2 \<le> length cols
          then Some (py_str (field ''group'' (JStr '''') (JDict d)), cell_value (last cols))
          else None
      | _ \<Rightarrow> None)"
| "group_total _ = None"

definition group_totals :: "json \<Rightarrow> (string \<times> real) list" where
  "group_totals balance_sheet = List.map_filter group_total (sub_rows_of balance_sheet)"

text \<open>Last write wins: the value of the last group classified into the bucket, else 0.\<close>

definition last_total :: "bucket \<Rightarrow> (string \<times> real) list \<Rightarrow> real" where
  "last_total b groups =
     (let matching = filter (\<lambda>g. classify (fst g) = Some b) groups
      in if matching = [] then 0 else snd (last matching))"

text \<open>What one second-level row does to the buckets.\<close>

definition apply_group :: "(string \<times> real) option \<Rightarrow> buckets \<Rightarrow> buckets" where
  "apply_group g b =
     (case g of None \<Rightarrow> b | Some lv \<Rightarrow> categorize (str_upper (fst lv)) (snd lv) b)"

subsection \<open>What a check may do to the state\<close>

text \<open>The database is as it was.\<close>

definition same_db :: "state \<Rightarrow> state \<Rightarrow> bool" where
  "same_db st s \<longleftrightarrow> db_snapshots s = db_snapshots st \<and> db_adjustments s = db_adjustments st"

text \<open>
  A computation that raises neither the required-data exception nor an exception of the
  database.
\<close>

definition clean :: "py_error + 'a \<Rightarrow> bool" where
  "clean m \<longleftrightarrow> m \<noteq> Inl DataUnavailable \<and> m \<noteq> Inl SQLAlchemyError"

text \<open>
  A step that, when it raises, raises neither of these two and leaves the database as it
  was; and a step that leaves it so when it returns as well.
\<close>

definition fails_ok :: "state \<Rightarrow> (py_error \<times> state) + 'a \<Rightarrow> bool" where
  "fails_ok st m \<longleftrightarrow>
     (\<forall>e s. m = Inl (e, s) \<longrightarrow> e \<noteq> DataUnavailable \<and> e \<noteq> SQLAlchemyError \<and> same_db st s)"

definition keeps_db :: "state \<Rightarrow> (py_error \<times> state) + state \<Rightarrow> bool" where
  "keeps_db st m \<longleftrightarrow> fails_ok st m \<and> (\<forall>s. m = Inr s \<longrightarrow> same_db st s)"

text \<open>
  What a run that raises has left in the database: nothing new, unless the exception is the
  database's, and then the new snapshot and no adjustment row, one of the instance's
  adjustments having an account name that cannot be stored.
\<close>

definition run_fails_ok :: "state \<Rightarrow> (py_error \<times> state) + 'a \<Rightarrow> bool" where
  "run_fails_ok st m \<longleftrightarrow>
     (\<forall>e s. m = Inl (e, s) \<longrightarrow>
        e \<noteq> DataUnavailable \<and> db_adjustments s = db_adjustments st
        \<and> (if e = SQLAlchemyError
           then (\<exists>snap. db_snapshots s = db_snapshots st @ [snap]
                   \<and> snap_id snap = Suc (length (db_snapshots st)))
                \<and> \<not> list_all (\<lambda>adj. storable (account_name adj)) (adjustments s)
           else db_snapshots s = db_snapshots st))"

text \<open>
  The same state on an instance that already held the adjustments \<open>xs\<close> and the metrics
  \<open>m\<close>: the adjustments of the state follow \<open>xs\<close>, its metrics override \<open>m\<close>.
\<close>

definition carry :: "adjustment list \<Rightarrow> (string \<rightharpoonup> real) \<Rightarrow> state \<Rightarrow> state" where
  "carry xs m s =
     s\<lparr>adjustments := xs @ adjustments s,
       reconciliation_checks := m ++ reconciliation_checks s\<rparr>"

definition carry_outcome ::
    "adjustment list \<Rightarrow> (string \<rightharpoonup> real) \<Rightarrow> (py_error \<times> state) + state
       \<Rightarrow> (py_error \<times> state) + state" where
  "carry_outcome xs m r =
     (case r of Inl x \<Rightarrow> Inl (fst x, carry xs m (snd x)) | Inr s \<Rightarrow> Inr (carry xs m s))"

section \<open>Example payloads\<close>

text \<open>A chart of accounts with one account: Petty Cash, type Cash, balance -200.\<close>

definition petty_cash_chart :: json where
  "petty_cash_chart =
     JDict [(''QueryResponse'', JDict [(''Account'', JList
       [JDict [(''Name'', JStr ''Petty Cash''), (''AccountType'', JStr ''Cash''),
               (''CurrentBalance'', JNum (- 200))]])])]"

text \<open>Reading the outcome of a run: the result returned, the exception raised, the state left.\<close>

definition returned :: "(py_error \<times> state) + (result \<times> state) \<Rightarrow> result option" where
  "returned r = (case r of Inl x \<Rightarrow> None | Inr y \<Rightarrow> Some (fst y))"

definition raised :: "(py_error \<times> state) + 'a \<Rightarrow> py_error option" where
  "raised r = (case r of Inl x \<Rightarrow> Some (fst x) | Inr y \<Rightarrow> None)"

definition final_state :: "(py_error \<times> state) + (result \<times> state) \<Rightarrow> state" where
  "final_state r = (case r of Inl x \<Rightarrow> snd x | Inr y \<Rightarrow> snd y)"

text \<open>A balance sheet with no rows, a chart of accounts with no accounts.\<close>

definition empty_sheet :: json where
  "empty_sheet = JDict [(''Rows'', JList [])]"

definition empty_chart :: json where
  "empty_chart = JDict [(''QueryResponse'', JDict [])]"

text \<open>A collaborator with all six fetches, the optional ones returning \<^verbatim>\<open>None\<close>.\<close>

definition api_of :: "json \<Rightarrow> json \<Rightarrow> json \<Rightarrow> qbo_api" where
  "api_of trial_balance balance_sheet chart_of_accounts =
     \<lparr>get_trial_balance = (\<lambda>d. trial_balance),
      get_balance_sheet_report = (\<lambda>d. balance_sheet),
      get_chart_of_accounts = chart_of_accounts,
      get_open_ar = JNull, get_open_ap = JNull,
      get_bank_accounts = Some JNull\<rparr>"

text \<open>A trial balance that is an object without \<^verbatim>\<open>'Rows'\<close>.\<close>

definition headed_report :: json where
  "headed_report = JDict [(''Header'', JDict [])]"

text \<open>Scenario B: one row, debit 100500.00 and credit 100000.00.\<close>

definition scenario_b :: json where
  "scenario_b =
     JDict [(''Rows'', JList
       [JDict [(''ColData'', JList
          [JDict [(''id'', JStr ''Debit''), (''value'', JStr ''100500.00'')],
           JDict [(''id'', JStr ''Credit''), (''value'', JStr ''100000.00'')]])]])]"

text \<open>
  A balance sheet with two sections. The first: Current Assets 100, Total Current Assets
  150, a row Current Assets with the single column 9, and Fixed Assets 300. The second:
  Current Liability 50, Retained Equity 400, and a row worth 7 whose label is
  \<^verbatim>\<open>Total a\<close>, the sharp s (code point 223) and \<^verbatim>\<open>ets\<close>.
\<close>

definition two_section_sheet :: json where
  "two_section_sheet =
     JDict [(''Rows'', JList
       [JDict [(''Rows'', JList
          [JDict [(''group'', JStr ''Current Assets''),
                  (''ColData'', JList [JDict [], JDict [(''value'', JNum 100)]])],
           JDict [(''group'', JStr ''Total Current Assets''),
                  (''ColData'', JList [JDict [], JDict [(''value'', JNum 150)]])],
           JDict [(''group'', JStr ''Current Assets''),
                  (''ColData'', JList [JDict [(''value'', JNum 9)]])],
           JDict [(''group'', JStr ''Fixed Assets''),
                  (''ColData'', JList [JDict [], JDict [(''value'', JNum 300)]])]])],
        JDict [(''Rows'', JList
          [JDict [(''group'', JStr ''Current Liability''),
                  (''ColData'', JList [JDict [], JDict [(''value'', JNum 50)]])],
           JDict [(''group'', JStr ''Retained Equity''),
                  (''ColData'', JList [JDict [], JDict [(''value'', JNum 400)]])],
           JDict [(''group'', JStr (''Total a'' @ [CHR 0xDF] @ ''ets'')),
                  (''ColData'', JList [JDict [], JDict [(''value'', JNum 7)]])]])]])]"

text \<open>
  A balance sheet whose two sections each have a Retained Earnings group: -5 in the first
  section, 10 in the second.
\<close>

definition retained_twice_sheet :: json where
  "retained_twice_sheet =
     JDict [(''Rows'', JList
       [JDict [(''Rows'', JList
          [JDict [(''group'', JStr ''Retained Earnings''),
                  (''ColData'', JList [JDict [], JDict [(''value'', JNum (- 5))]])]])],
        JDict [(''Rows'', JList
          [JDict [(''group'', JStr ''Retained Earnings''),
                  (''ColData'', JList [JDict [], JDict [(''value'', JNum 10)]])]])]])]"

text \<open>The first section of that sheet alone.\<close>

definition retained_once_sheet :: json where
  "retained_once_sheet =
     JDict [(''Rows'', JList
       [JDict [(''Rows'', JList
          [JDict [(''group'', JStr ''Retained Earnings''),
                  (''ColData'', JList [JDict [], JDict [(''value'', JNum (- 5))]])]])]])]"

text \<open>A trial balance whose one Debit column has the value \<^verbatim>\<open>None\<close>.\<close>

definition null_debit_report :: json where
  "null_debit_report =
     JDict [(''Rows'', JList
       [JDict [(''ColData'', JList
          [JDict [(''id'', JStr ''Debit''), (''value'', JNull)]])]])]"

text \<open>A chart of accounts whose one Cash account has a balance that is not a number.\<close>

definition text_balance_chart :: json where
  "text_balance_chart =
     JDict [(''QueryResponse'', JDict [(''Account'', JList
       [JDict [(''Name'', JStr ''Till''), (''AccountType'', JStr ''Cash''),
               (''CurrentBalance'', JStr ''n/a'')]])])]"

text \<open>A collaborator whose chart of accounts is the Petty Cash one, the reports empty.\<close>

definition petty_cash_api :: qbo_api where
  "petty_cash_api = api_of empty_sheet empty_sheet petty_cash_chart"

definition petty_cash_adjustment :: adjustment where
  "petty_cash_adjustment =
     \<lparr>account_name = JStr ''Petty Cash'', original_amount = - 200,
      adjusted_amount = 200, adjustment_amount = 400,
      reason = ''Negative balance in Cash account'',
      adjustment_type = ''correction''\<rparr>"

text \<open>The four metrics of a run on reports without rows and without open items.\<close>

definition zero_checks :: "string \<rightharpoonup> real" where
  "zero_checks =
     [''trial_balance_difference'' \<mapsto> 0, ''balance_sheet_difference'' \<mapsto> 0,
      ''total_open_ar'' \<mapsto> 0, ''total_open_ap'' \<mapsto> 0]"

definition zero_summary :: summary where
  "zero_summary = with_totals empty_buckets"

definition zero_snapshot :: "nat \<Rightarrow> nat \<Rightarrow> snapshot_row" where
  "zero_snapshot i n =
     \<lparr>snap_id = i, snap_date = 0, snap_period = 0,
      snap_total_assets = 0, snap_total_liabilities = 0, snap_total_equity = 0,
      snap_is_balanced = True, snap_adjustments_count = n, snap_status = ''completed''\<rparr>"

text \<open>The state after one run with \<open>petty_cash_api\<close> on a fresh instance and an empty database.\<close>

definition after_first_run :: state where
  "after_first_run =
     \<lparr>adjustments = [petty_cash_adjustment],
      reconciliation_checks = zero_checks,
      db_snapshots = [zero_snapshot 1 1],
      db_adjustments = [\<lparr>reconciliation_log_id = 1, row_fields = petty_cash_adjustment\<rparr>]\<rparr>"

text \<open>A chart of accounts whose one Cash account, balance -200, has the name \<^verbatim>\<open>None\<close>.\<close>

definition nameless_chart :: json where
  "nameless_chart =
     JDict [(''QueryResponse'', JDict [(''Account'', JList
       [JDict [(''Name'', JNull), (''AccountType'', JStr ''Cash''),
               (''CurrentBalance'', JNum (- 200))]])])]"

definition nameless_adjustment :: adjustment where
  "nameless_adjustment =
     \<lparr>account_name = JNull, original_amount = - 200,
      adjusted_amount = 200, adjustment_amount = 400,
      reason = ''Negative balance in Cash account'',
      adjustment_type = ''correction''\<rparr>"

text \<open>
  A collaborator whose trial balance has no \<^verbatim>\<open>'Rows'\<close>, with an empty balance sheet and an
  empty chart of accounts.
\<close>

definition rowless_api :: qbo_api where
  "rowless_api = api_of headed_report empty_sheet empty_chart"

text \<open>The three metrics of a run with \<open>rowless_api\<close> on a fresh instance.\<close>

definition rowless_checks :: "string \<rightharpoonup> real" where
  "rowless_checks =
     [''balance_sheet_difference'' \<mapsto> 0, ''total_open_ar'' \<mapsto> 0, ''total_open_ap'' \<mapsto> 0]"

lemma bnd_Inl: "bnd (Inl e) f = Inl e"
  by (simp add: bnd_def)

lemma bnd_Inr: "bnd (Inr x) f = f x"
  by (simp add: bnd_def)

lemma bnd_eq_Inr: "bnd m f = Inr y \<longleftrightarrow> (\<exists>x. m = Inr x \<and> f x = Inr y)"
  by (cases m) (simp_all add: bnd_def)

lemma bnd_eq_Inl: "bnd m f = Inl e \<longleftrightarrow> (m = Inl e \<or> (\<exists>x. m = Inr x \<and> f x = Inl e))"
  by (cases m) (simp_all add: bnd_def)

lemma raise_in_eq_Inr: "raise_in st m = Inr x \<longleftrightarrow> m = Inr x"
  by (cases m) (simp_all add: raise_in_def)

lemma raise_in_eq_Inl: "raise_in st m = Inl z \<longleftrightarrow> (\<exists>e. m = Inl e \<and> z = (e, st))"
  by (cases m) (auto simp add: raise_in_def)

text \<open>A loop whose body, when it returns, applies \<open>g\<close>, folds \<open>g\<close> when it returns.\<close>

lemma for_loop_fold:
  assumes step: "\<And>x s s'. body x s = Inr s' \<Longrightarrow> s' = g x s"
  shows "for_loop body xs s = Inr s' \<Longrightarrow> s' = fold g xs s"
proof (induction xs arbitrary: s)
  case Nil
  then show ?case by simp
next
  case (Cons x xs)
  from Cons.prems obtain s1 where b: "body x s = Inr s1" and r: "for_loop body xs s1 = Inr s'"
    by (auto simp: bnd_eq_Inr)
  from step[OF b] Cons.IH[OF r] show ?case by simp
qed

section \<open>The collaborator of this module\<close>

text \<open>
  C10. With the \<^verbatim>\<open>QuickBooksAPI\<close> of this module as collaborator, \<^verbatim>\<open>reconcile\<close> raises
  \<^verbatim>\<open>AttributeError\<close> at the bank-accounts fetch for every date and every answer of the
  service: the state is as before the call, so no check has run and nothing was stored, and
  no result is returned.
\<close>

theorem reconcile_QuickBooksAPI_raises:
  "reconcile (QuickBooksAPI srv) today as_of_date st = Inl (AttributeError, st)"
  by (simp add: reconcile_def QuickBooksAPI_def)

section \<open>Account balance sanity check\<close>







section \<open>Trial balance validation\<close>







lemmas check_defs =
  validate_trial_balance_def tb_totals_def tb_row_def tb_col_def
  verify_balance_sheet_totals_def walk_def walk_row_def bs_sub_row_def has_columns_def
  last_value_def check_account_balances_def check_account_def
  reconcile_bank_accounts_def bank_account_def verify_open_items_def open_total_def
  add_balance_def validate_retained_earnings_def retained_earnings_of_def re_row_def
  generate_summary_balance_sheet_def summary_sub_row_def categorize_def empty_buckets_def
  with_totals_def persist_def set_check_def append_adjustment_def raise_in_def bnd_def
  py_ne0_def init_def Let_def

lemmas fmt_defs =
  fmt_2f_def fmt_comma_2f_def fmt_parts_def round_half_even_def digit_char_def
  str_upper_def upper_point_def code_points_def has_word_def float_of_str_def take_sign_def strip_def is_space_def
  is_digit_def digit_val_def digits_val_def parse_exponent_def




section \<open>Summary balance sheet\<close>

lemma py_upper_Inr: "py_upper v = Inr u \<Longrightarrow> \<exists>label. v = JStr label \<and> u = str_upper label"
  by (cases v) simp_all

lemma summary_sub_row_dict:
  assumes "summary_sub_row (JDict d) b = Inr b'"
  shows "b' = apply_group (group_total (JDict d)) b"
proof (cases "map_of d ''ColData''")
  case None
  with assms show ?thesis
    by (simp add: summary_sub_row_def has_columns_def apply_group_def bnd_def)
next
  case (Some cd)
  show ?thesis
  proof (cases "has_columns (JDict d) = Inr True")
    case False
    with assms have b: "b' = b"
      by (auto simp: summary_sub_row_def bnd_eq_Inr split: if_splits)
    from False Some have "group_total (JDict d) = None"
      by (cases cd) (auto simp: has_columns_def bnd_def)
    with b show ?thesis by (simp add: apply_group_def)
  next
    case True
    with assms obtain name tv u where
      n: "py_get (JDict d) ''group'' (JStr '''') = Inr name"
      and t: "last_value (JDict d) = Inr tv"
      and u: "py_upper name = Inr u"
      and b: "b' = categorize u tv b"
      by (auto simp: summary_sub_row_def bnd_eq_Inr bnd_Inr)
    from py_upper_Inr[OF u] obtain label where l: "name = JStr label" "u = str_upper label"
      by blast
    from t Some obtain col v where
      c: "py_last cd = Inr col" and g: "py_get col ''value'' (JNum 0) = Inr v"
      and f: "py_float v = Inr tv"
      by (auto simp: last_value_def bnd_eq_Inr)
    from True Some obtain k where k: "py_len cd = Inr k" "1 < k"
      by (auto simp: has_columns_def bnd_eq_Inr)
    from c g k obtain cols where cols: "cd = JList cols" "2 \<le> length cols" "col = last cols"
      by (cases cd) (auto split: if_splits)
    from n l have "field ''group'' (JStr '''') (JDict d) = JStr label"
      by (simp add: field_def)
    moreover from g f cols have "cell_value (last cols) = tv"
      by (simp add: cell_value_def field_def)
    ultimately have "group_total (JDict d) = Some (label, tv)"
      using Some cols by simp
    with b l show ?thesis by (simp add: apply_group_def)
  qed
qed

lemma summary_sub_row_step:
  assumes "summary_sub_row sub_row b = Inr b'"
  shows "b' = apply_group (group_total sub_row) b"
proof (cases sub_row)
  case (JDict d)
  with assms summary_sub_row_dict[of d b b'] show ?thesis by blast
qed (use assms in \<open>auto simp: summary_sub_row_def has_columns_def apply_group_def bnd_def
       split: if_splits\<close>)

lemma fold_concat_list: "fold f (concat xss) = fold (\<lambda>xs. fold f xs) xss"
  by (induction xss) simp_all

lemma walk_row_fold:
  assumes step: "\<And>x s s'. body x s = Inr s' \<Longrightarrow> s' = g x s"
    and "walk_row body row acc = Inr acc'"
  shows "acc' = fold g (if py_in ''Rows'' row = Inr True then rows_of row else []) acc"
proof (cases "py_in ''Rows'' row = Inr True")
  case True
  with assms(2) obtain rs subs where
    r: "py_getitem row ''Rows'' = Inr rs" and i: "py_iter rs = Inr subs"
    and l: "for_loop body subs acc = Inr acc'"
    by (auto simp: walk_row_def bnd_eq_Inr bnd_Inr)
  have "rows_of row = subs" by (simp add: rows_of_def r i bnd_Inr)
  with for_loop_fold[of body g, OF step l] True show ?thesis by simp
next
  case False
  with assms(2) have "acc' = acc"
    by (auto simp: walk_row_def bnd_eq_Inr split: if_splits)
  with False show ?thesis by simp
qed

lemma walk_fold:
  assumes step: "\<And>x s s'. body x s = Inr s' \<Longrightarrow> s' = g x s"
    and w: "walk body balance_sheet acc = Inr acc'"
  shows "acc' = fold g (sub_rows_of balance_sheet) acc"
proof -
  from w obtain rs rows where
    r: "py_getitem balance_sheet ''Rows'' = Inr rs" and i: "py_iter rs = Inr rows"
    and l: "for_loop (walk_row body) rows acc = Inr acc'"
    by (auto simp: walk_def bnd_eq_Inr)
  have rows: "rows_of balance_sheet = rows" by (simp add: rows_of_def r i bnd_Inr)
  have "acc' = fold (\<lambda>row. fold g (if py_in ''Rows'' row = Inr True then rows_of row else []))
                 rows acc"
    by (rule for_loop_fold[of "walk_row body", OF _ l]) (rule walk_row_fold[OF step])
  then show ?thesis
    by (simp add: sub_rows_of_def rows fold_concat_list fold_map comp_def)
qed

lemma categorize_bucket:
  "bucket_value b (categorize (str_upper label) v x)
     = (if classify label = Some b then v else bucket_value b x)"
  by (cases b) (simp_all add: categorize_def classify_def Let_def)

lemma categorize_net_income:
  "equity_net_income (categorize u v x) = equity_net_income x"
  by (simp add: categorize_def)

lemma fold_apply_group:
  "fold (\<lambda>r. apply_group (group_total r)) rows b
     = fold (\<lambda>g. categorize (str_upper (fst g)) (snd g)) (List.map_filter group_total rows) b"
  by (induction rows arbitrary: b)
     (simp_all add: map_filter_simps apply_group_def split: option.splits)

lemma fold_categorize_bucket:
  "bucket_value b (fold (\<lambda>g. categorize (str_upper (fst g)) (snd g)) gs x)
     = (let matching = filter (\<lambda>g. classify (fst g) = Some b) gs
        in if matching = [] then bucket_value b x else snd (last matching))"
proof (induction gs rule: rev_induct)
  case Nil
  then show ?case by simp
next
  case (snoc g gs)
  show ?case
    using snoc.IH by (simp add: categorize_bucket Let_def)
qed

lemma fold_categorize_net_income:
  "equity_net_income (fold (\<lambda>g. categorize (str_upper (fst g)) (snd g)) gs x)
     = equity_net_income x"
  by (induction gs arbitrary: x) (simp_all add: categorize_net_income)

lemma summary_buckets:
  assumes "generate_summary_balance_sheet balance_sheet = Inr (Some sm)"
  shows "sm = with_totals
           (fold (\<lambda>g. categorize (str_upper (fst g)) (snd g)) (group_totals balance_sheet)
              empty_buckets)"
proof -
  from assms obtain b where
    w: "walk summary_sub_row balance_sheet empty_buckets = Inr b"
    and s: "sm = with_totals b"
    by (auto simp: generate_summary_balance_sheet_def bnd_eq_Inr split: if_splits)
  from walk_fold[of summary_sub_row "\<lambda>r. apply_group (group_total r)",
                 OF summary_sub_row_step w]
  have "b = fold (\<lambda>r. apply_group (group_total r)) (sub_rows_of balance_sheet) empty_buckets" .
  with s show ?thesis
    by (simp add: fold_apply_group group_totals_def)
qed

lemma summary_some:
  assumes "generate_summary_balance_sheet balance_sheet = Inr r"
    and "py_in ''Rows'' balance_sheet = Inr True"
  shows "\<exists>sm. r = Some sm"
  using assms by (auto simp: generate_summary_balance_sheet_def bnd_eq_Inr bnd_Inr)

lemma summary_none:
  assumes "generate_summary_balance_sheet balance_sheet = Inr r"
    and "py_in ''Rows'' balance_sheet = Inr False"
  shows "r = None"
  using assms by (auto simp: generate_summary_balance_sheet_def bnd_eq_Inr bnd_Inr)

text \<open>
  C3, as the code has it. On a payload without \<^verbatim>\<open>'Rows'\<close> the builder returns the empty
  dict, which has no bucket and no total. On a payload with \<^verbatim>\<open>'Rows'\<close>, when the builder
  returns, it returns a summary in which each of the seven buckets holds the number in the
  last column of the last second-level row, among those with at least two columns, whose
  group label is classified into that bucket by the substring match on the upper-cased
  label (0 when there is none: a later row overwrites, nothing is summed); the three totals
  are the sums of their buckets; and the net income bucket is 0.
\<close>

theorem summary_last_write_wins:
  assumes "generate_summary_balance_sheet balance_sheet = Inr r"
  shows "(py_in ''Rows'' balance_sheet = Inr False \<longrightarrow> r = None)
       \<and> (py_in ''Rows'' balance_sheet = Inr True \<longrightarrow>
            (\<exists>sm. r = Some sm
               \<and> (\<forall>b. bucket_value b (sheet sm) = last_total b (group_totals balance_sheet))
               \<and> total_assets sm
                   = assets_current (sheet sm) + assets_fixed (sheet sm) + assets_other (sheet sm)
               \<and> total_liabilities sm
                   = liabilities_current (sheet sm) + liabilities_long_term (sheet sm)
               \<and> total_equity sm
                   = equity_owners_equity (sheet sm) + equity_retained_earnings (sheet sm)
               \<and> equity_net_income (sheet sm) = 0))"
proof (intro conjI impI)
  assume "py_in ''Rows'' balance_sheet = Inr False"
  with assms show "r = None" by (rule summary_none)
next
  assume rows: "py_in ''Rows'' balance_sheet = Inr True"
  from summary_some[OF assms rows] obtain sm where r: "r = Some sm" by blast
  note s = summary_buckets[OF assms[unfolded r]]
  have "bucket_value b (sheet sm) = last_total b (group_totals balance_sheet)" for b
    by (cases b)
       (simp_all add: s with_totals_def fold_categorize_bucket[of AssetsCurrent, simplified]
          fold_categorize_bucket[of AssetsFixed, simplified]
          fold_categorize_bucket[of AssetsOther, simplified]
          fold_categorize_bucket[of LiabilitiesCurrent, simplified]
          fold_categorize_bucket[of LiabilitiesLongTerm, simplified]
          fold_categorize_bucket[of OwnersEquity, simplified]
          fold_categorize_bucket[of RetainedEarnings, simplified]
          last_total_def empty_buckets_def Let_def)
  moreover have "equity_net_income (sheet sm) = 0"
    by (simp add: s with_totals_def fold_categorize_net_income empty_buckets_def)
  moreover have "total_assets sm
                   = assets_current (sheet sm) + assets_fixed (sheet sm) + assets_other (sheet sm)"
    "total_liabilities sm = liabilities_current (sheet sm) + liabilities_long_term (sheet sm)"
    "total_equity sm = equity_owners_equity (sheet sm) + equity_retained_earnings (sheet sm)"
    by (simp_all add: s with_totals_def)
  ultimately show "\<exists>sm. r = Some sm
               \<and> (\<forall>b. bucket_value b (sheet sm) = last_total b (group_totals balance_sheet))
               \<and> total_assets sm
                   = assets_current (sheet sm) + assets_fixed (sheet sm) + assets_other (sheet sm)
               \<and> total_liabilities sm
                   = liabilities_current (sheet sm) + liabilities_long_term (sheet sm)
               \<and> total_equity sm
                   = equity_owners_equity (sheet sm) + equity_retained_earnings (sheet sm)
               \<and> equity_net_income (sheet sm) = 0"
    using r by blast
qed

theorem summary_last_write_wins_witness:
  "generate_summary_balance_sheet two_section_sheet
     = Inr (Some \<lparr>sheet =
               \<lparr>assets_current = 150, assets_fixed = 300, assets_other = 7,
                liabilities_current = 50, liabilities_long_term = 0,
                equity_owners_equity = 0, equity_retained_earnings = 400,
                equity_net_income = 0\<rparr>,
             total_assets = 457, total_liabilities = 50, total_equity = 400\<rparr>)
   \<and> py_in ''Rows'' two_section_sheet = Inr True
   \<and> group_totals two_section_sheet
       = [(''Current Assets'', 100), (''Total Current Assets'', 150), (''Fixed Assets'', 300),
          (''Current Liability'', 50), (''Retained Equity'', 400),
          (''Total a'' @ [CHR 0xDF] @ ''ets'', 7)]
   \<and> last_total AssetsCurrent (group_totals two_section_sheet) = 150
   \<and> last_total AssetsOther (group_totals two_section_sheet) = 7"
proof -
  let ?sm = "\<lparr>sheet =
               \<lparr>assets_current = 150, assets_fixed = 300, assets_other = 7,
                liabilities_current = 50, liabilities_long_term = 0,
                equity_owners_equity = 0, equity_retained_earnings = 400,
                equity_net_income = 0\<rparr>,
             total_assets = 457, total_liabilities = 50, total_equity = 400\<rparr>"
  have run: "generate_summary_balance_sheet two_section_sheet = Inr (Some ?sm)"
    by (simp add: two_section_sheet_def check_defs fmt_defs)
  have rows: "py_in ''Rows'' two_section_sheet = Inr True"
    by (simp add: two_section_sheet_def)
  have groups: "group_totals two_section_sheet
       = [(''Current Assets'', 100), (''Total Current Assets'', 150), (''Fixed Assets'', 300),
          (''Current Liability'', 50), (''Retained Equity'', 400),
          (''Total a'' @ [CHR 0xDF] @ ''ets'', 7)]"
    by (simp add: two_section_sheet_def group_totals_def sub_rows_of_def rows_of_def
          cell_value_def field_def bnd_def map_filter_simps)
  from summary_last_write_wins[OF run] rows
  have all: "\<forall>b. bucket_value b (sheet ?sm) = last_total b (group_totals two_section_sheet)"
    by auto
  from all have "bucket_value AssetsCurrent (sheet ?sm)
                   = last_total AssetsCurrent (group_totals two_section_sheet)"
    by (rule spec)
  then have a: "last_total AssetsCurrent (group_totals two_section_sheet) = 150"
    by simp
  from all have "bucket_value AssetsOther (sheet ?sm)
                   = last_total AssetsOther (group_totals two_section_sheet)"
    by (rule spec)
  then have b: "last_total AssetsOther (group_totals two_section_sheet) = 7"
    by simp
  from run rows groups a b show ?thesis by blast
qed

text \<open>
  On a balance sheet that is an object without \<^verbatim>\<open>'Rows'\<close> the builder returns the empty
  dict: there is no total in it.
\<close>

theorem summary_without_rows_counterexample:
  "generate_summary_balance_sheet headed_report = Inr None"
  by (simp add: headed_report_def generate_summary_balance_sheet_def bnd_def)

section \<open>Retained earnings validation\<close>

text \<open>
  C8. On a sheet whose first group labelled RETAINED has the negative value -5 and whose
  second section has another such group with value 10, the check appends nothing: the
  \<^verbatim>\<open>break\<close> leaves only the inner loop, and the later section overwrites the value read
  first. On the first section alone the check appends the info adjustment.
\<close>

theorem validate_retained_earnings_later_section:
  "validate_retained_earnings retained_twice_sheet JNull (init [] []) = Inr (init [] [])
   \<and> group_totals retained_twice_sheet
       = [(''Retained Earnings'', - 5), (''Retained Earnings'', 10)]
   \<and> validate_retained_earnings retained_once_sheet JNull (init [] [])
       = Inr ((init [] [])\<lparr>adjustments :=
           [\<lparr>account_name = JStr ''Retained Earnings'', original_amount = - 5,
             adjusted_amount = - 5, adjustment_amount = 0,
             reason = ''Negative retained earnings: $-5.00'',
             adjustment_type = ''info''\<rparr>]\<rparr>)"
proof (intro conjI)
  show "validate_retained_earnings retained_twice_sheet JNull (init [] []) = Inr (init [] [])"
    by (simp add: retained_twice_sheet_def check_defs fmt_defs)
  show "group_totals retained_twice_sheet
       = [(''Retained Earnings'', - 5), (''Retained Earnings'', 10)]"
    by (simp add: retained_twice_sheet_def group_totals_def sub_rows_of_def rows_of_def
          cell_value_def field_def bnd_def map_filter_simps)
  show "validate_retained_earnings retained_once_sheet JNull (init [] [])
       = Inr ((init [] [])\<lparr>adjustments :=
           [\<lparr>account_name = JStr ''Retained Earnings'', original_amount = - 5,
             adjusted_amount = - 5, adjustment_amount = 0,
             reason = ''Negative retained earnings: $-5.00'',
             adjustment_type = ''info''\<rparr>]\<rparr>)"
    by (simp add: retained_once_sheet_def check_defs fmt_defs)
qed

section \<open>A balance sheet without rows\<close>

text \<open>
  C6. With a balance sheet that is an object without \<^verbatim>\<open>'Rows'\<close>, every check returns and
  the builder returns the empty summary; \<^verbatim>\<open>reconcile\<close> then indexes it with
  \<^verbatim>\<open>'total_assets'\<close> and raises \<^verbatim>\<open>KeyError\<close>: no result is returned.
\<close>

theorem reconcile_sheet_without_rows:
  "generate_summary_balance_sheet headed_report = Inr None
   \<and> raised (reconcile (api_of empty_sheet headed_report empty_chart) 0 None (init [] []))
       = Some KeyError
   \<and> returned (reconcile (api_of empty_sheet headed_report empty_chart) 0 None (init [] []))
       = None"
  by (simp add: raised_def returned_def reconcile_def api_of_def headed_report_def
        empty_sheet_def empty_chart_def check_defs)

section \<open>Exceptions and the database\<close>

text \<open>No computation of a check raises the required-data exception.\<close>

named_theorems clean_intros

lemma clean_Inr [clean_intros]: "clean (Inr x)"
  by (simp add: clean_def)

lemma clean_bnd [clean_intros]: "clean m \<Longrightarrow> (\<And>x. clean (f x)) \<Longrightarrow> clean (bnd m f)"
  by (cases m) (simp_all add: clean_def bnd_def)

lemma clean_if [clean_intros]: "clean a \<Longrightarrow> clean b \<Longrightarrow> clean (if c then a else b)"
  by simp

lemma clean_py_in [clean_intros]: "clean (py_in k v)"
  by (cases v) (simp_all add: clean_def)

lemma clean_py_getitem [clean_intros]: "clean (py_getitem v k)"
  by (cases v) (simp_all add: clean_def split: option.splits)

lemma clean_py_last [clean_intros]: "clean (py_last v)"
  by (cases v) (simp_all add: clean_def)

lemma clean_py_get [clean_intros]: "clean (py_get v k d)"
  by (cases v) (simp_all add: clean_def)

lemma clean_py_iter [clean_intros]: "clean (py_iter v)"
  by (cases v) (simp_all add: clean_def)

lemma clean_py_len [clean_intros]: "clean (py_len v)"
  by (cases v) (simp_all add: clean_def)

lemma clean_py_upper [clean_intros]: "clean (py_upper v)"
  by (cases v) (simp_all add: clean_def)

lemma clean_py_num [clean_intros]: "clean (py_num v)"
  by (cases v) (simp_all add: clean_def)

lemma clean_py_float [clean_intros]: "clean (py_float v)"
  by (cases v) (simp_all add: clean_def split: option.splits)

lemma clean_for_loop [clean_intros]:
  "(\<And>x s. clean (body x s)) \<Longrightarrow> clean (for_loop body xs s)"
  by (induction xs arbitrary: s) (simp_all add: clean_intros)

lemma clean_tb_col [clean_intros]: "clean (tb_col col acc)"
  unfolding tb_col_def by (intro clean_intros)

lemma clean_tb_row [clean_intros]: "clean (tb_row row acc)"
  unfolding tb_row_def by (intro clean_intros)

lemma clean_tb_totals [clean_intros]: "clean (tb_totals tb)"
  unfolding tb_totals_def by (intro clean_intros)

lemma clean_has_columns [clean_intros]: "clean (has_columns r)"
  unfolding has_columns_def by (intro clean_intros)

lemma clean_last_value [clean_intros]: "clean (last_value r)"
  unfolding last_value_def by (intro clean_intros)

lemma clean_walk_row [clean_intros]:
  "(\<And>x s. clean (body x s)) \<Longrightarrow> clean (walk_row body row acc)"
  unfolding walk_row_def by (intro clean_intros)

lemma clean_walk [clean_intros]:
  "(\<And>x s. clean (body x s)) \<Longrightarrow> clean (walk body bs acc)"
  unfolding walk_def by (intro clean_intros)

lemma clean_bs_sub_row [clean_intros]: "clean (bs_sub_row r acc)"
  unfolding bs_sub_row_def by (cases acc) (auto intro!: clean_intros)

lemma clean_add_balance [clean_intros]: "clean (add_balance x t)"
  unfolding add_balance_def by (intro clean_intros)

lemma clean_open_total [clean_intros]: "clean (open_total k p)"
  unfolding open_total_def by (intro clean_intros)

lemma clean_re_sub_rows [clean_intros]: "clean (re_sub_rows rs r)"
  by (induction rs) (auto intro!: clean_intros)

lemma clean_re_row [clean_intros]: "clean (re_row row r)"
  unfolding re_row_def by (intro clean_intros)

lemma clean_retained_earnings_of [clean_intros]: "clean (retained_earnings_of bs)"
  unfolding retained_earnings_of_def by (intro clean_intros)

lemma clean_summary_sub_row [clean_intros]: "clean (summary_sub_row r b)"
  unfolding summary_sub_row_def by (intro clean_intros)

lemma clean_generate_summary [clean_intros]: "clean (generate_summary_balance_sheet bs)"
  unfolding generate_summary_balance_sheet_def by (intro clean_intros)

text \<open>No check touches the database, whether it returns or raises.\<close>

named_theorems keeps_intros

lemma same_db_refl: "same_db st st"
  by (simp add: same_db_def)

lemma same_db_trans: "same_db a b \<Longrightarrow> same_db b c \<Longrightarrow> same_db a c"
  by (simp add: same_db_def)

lemma same_db_set_check: "same_db st s \<Longrightarrow> same_db st (set_check k v s)"
  by (simp add: same_db_def set_check_def)

lemma same_db_append: "same_db st s \<Longrightarrow> same_db st (append_adjustment a s)"
  by (simp add: same_db_def append_adjustment_def)

lemma keeps_Inr [keeps_intros]: "same_db st s \<Longrightarrow> keeps_db st (Inr s)"
  by (simp add: keeps_db_def fails_ok_def)

lemma keeps_if [keeps_intros]:
  "keeps_db st a \<Longrightarrow> keeps_db st b \<Longrightarrow> keeps_db st (if c then a else b)"
  by simp

lemma keeps_raise [keeps_intros]:
  "clean m \<Longrightarrow> (\<And>x. keeps_db st (f x)) \<Longrightarrow> keeps_db st (bnd (raise_in st m) f)"
  by (cases m) (auto simp: keeps_db_def fails_ok_def bnd_def raise_in_def clean_def same_db_def)

lemma keeps_for_loop [keeps_intros]:
  "(\<And>x s. keeps_db s (body x s)) \<Longrightarrow> keeps_db st (for_loop body xs st)"
proof (induction xs arbitrary: st)
  case Nil
  show ?case by (simp add: keeps_Inr same_db_refl)
next
  case (Cons x xs)
  have b: "keeps_db st (body x st)" by (rule Cons.prems)
  show ?case
  proof (cases "body x st")
    case (Inl z)
    with b show ?thesis by (simp add: bnd_def)
  next
    case (Inr s1)
    with b have s: "same_db st s1" by (simp add: keeps_db_def)
    have "keeps_db s1 (for_loop body xs s1)" by (rule Cons.IH) (rule Cons.prems)
    with s have "keeps_db st (for_loop body xs s1)"
      by (auto simp: keeps_db_def fails_ok_def intro: same_db_trans)
    with Inr show ?thesis by (simp add: bnd_def)
  qed
qed

lemmas same_db_intros = same_db_refl same_db_set_check same_db_append

lemma keeps_validate_trial_balance: "keeps_db st (validate_trial_balance tb st)"
  unfolding validate_trial_balance_def Let_def
  by (intro keeps_intros clean_intros same_db_intros)

lemma keeps_verify_balance_sheet_totals: "keeps_db st (verify_balance_sheet_totals bs st)"
  unfolding verify_balance_sheet_totals_def Let_def
  by (auto intro!: keeps_intros clean_intros same_db_intros split: prod.splits)

lemma keeps_check_account: "keeps_db st (check_account a st)"
  unfolding check_account_def
  by (intro keeps_intros clean_intros same_db_intros)

lemma keeps_check_account_balances: "keeps_db st (check_account_balances coa tb st)"
  unfolding check_account_balances_def
  by (intro keeps_intros clean_intros same_db_intros keeps_check_account)

lemma keeps_bank_account: "keeps_db st (bank_account a st)"
  unfolding bank_account_def
  by (intro keeps_intros clean_intros same_db_intros)

lemma keeps_reconcile_bank_accounts: "keeps_db st (reconcile_bank_accounts bank tb st)"
  unfolding reconcile_bank_accounts_def
  by (intro keeps_intros clean_intros same_db_intros keeps_bank_account)

lemma keeps_verify_open_items: "keeps_db st (verify_open_items ar ap st)"
  unfolding verify_open_items_def Let_def
  by (intro keeps_intros clean_intros same_db_intros)

lemma keeps_validate_retained_earnings: "keeps_db st (validate_retained_earnings bs tb st)"
  unfolding validate_retained_earnings_def
  by (intro keeps_intros clean_intros same_db_intros)

lemma fails_ok_seq:
  "keeps_db st m \<Longrightarrow> (\<And>s. same_db st s \<Longrightarrow> fails_ok s (f s)) \<Longrightarrow> fails_ok st (bnd m f)"
  by (cases m) (auto simp: keeps_db_def fails_ok_def bnd_def intro: same_db_trans)

lemma fails_ok_raise:
  "clean m \<Longrightarrow> (\<And>x. fails_ok st (f x)) \<Longrightarrow> fails_ok st (bnd (raise_in st m) f)"
  by (cases m) (auto simp: fails_ok_def bnd_def raise_in_def clean_def same_db_def)

text \<open>The two outcomes of storing the run.\<close>

lemma persist_Inr:
  assumes "persist day sm balanced s = Inr s'"
  shows "list_all (\<lambda>adj. storable (account_name adj)) (adjustments s)"
    and "adjustments s' = adjustments s"
    and "reconciliation_checks s' = reconciliation_checks s"
    and "db_snapshots s' = db_snapshots s @
           [\<lparr>snap_id = Suc (length (db_snapshots s)), snap_date = day, snap_period = day,
             snap_total_assets = total_assets sm,
             snap_total_liabilities = total_liabilities sm,
             snap_total_equity = total_equity sm,
             snap_is_balanced = balanced,
             snap_adjustments_count = length (adjustments s),
             snap_status = ''completed''\<rparr>]"
    and "db_adjustments s' = db_adjustments s @
           map (\<lambda>adj. \<lparr>reconciliation_log_id = Suc (length (db_snapshots s)),
                         row_fields = adj\<rparr>) (adjustments s)"
  using assms by (auto simp: persist_def Let_def split: if_splits)

lemma persist_Inl:
  assumes "persist day sm balanced s = Inl (e, s')"
  shows "e = SQLAlchemyError"
    and "\<not> list_all (\<lambda>adj. storable (account_name adj)) (adjustments s)"
    and "adjustments s' = adjustments s"
    and "db_adjustments s' = db_adjustments s"
    and "\<exists>snap. db_snapshots s' = db_snapshots s @ [snap]
           \<and> snap_id snap = Suc (length (db_snapshots s))"
  using assms by (auto simp: persist_def Let_def split: if_splits)

lemma run_fails_ok_seq:
  assumes "keeps_db st m" and "\<And>s. same_db st s \<Longrightarrow> run_fails_ok s (f s)"
  shows "run_fails_ok st (bnd m f)"
proof (cases m)
  case (Inl z)
  with assms(1) show ?thesis
    by (cases z) (auto simp: keeps_db_def fails_ok_def run_fails_ok_def bnd_def same_db_def)
next
  case (Inr s1)
  with assms(1) have s: "same_db st s1" by (simp add: keeps_db_def)
  from assms(2)[OF s] s Inr show ?thesis
    by (auto simp: run_fails_ok_def bnd_def same_db_def split: if_splits)
qed

lemma run_fails_ok_raise:
  "clean m \<Longrightarrow> (\<And>x. run_fails_ok st (f x)) \<Longrightarrow> run_fails_ok st (bnd (raise_in st m) f)"
  by (cases m) (auto simp: run_fails_ok_def bnd_def raise_in_def clean_def)

lemma run_fails_ok_persist:
  "run_fails_ok st (bnd (persist day sm balanced st) (\<lambda>s7. Inr (g s7)))"
proof (cases "persist day sm balanced st")
  case (Inl z)
  obtain e s where z: "z = (e, s)" by (cases z)
  from persist_Inl[OF Inl[unfolded z]] Inl z show ?thesis
    by (auto simp: run_fails_ok_def bnd_def)
next
  case (Inr s)
  then show ?thesis by (simp add: run_fails_ok_def bnd_def)
qed

text \<open>The part of \<^verbatim>\<open>reconcile\<close> after the two guards.\<close>

lemma reconcile_split:
  "reconcile api today d st =
     (case get_bank_accounts api of
        None \<Rightarrow> Inl (AttributeError, st)
      | Some bank \<Rightarrow>
          if \<not> (py_truthy (get_trial_balance api d) \<and> py_truthy (get_balance_sheet_report api d)
                 \<and> py_truthy (get_chart_of_accounts api))
          then Inl (DataUnavailable, st)
          else
            bnd (validate_trial_balance (get_trial_balance api d) st) (\<lambda>s1.
            bnd (verify_balance_sheet_totals (get_balance_sheet_report api d) s1) (\<lambda>s2.
            bnd (check_account_balances (get_chart_of_accounts api) (get_trial_balance api d) s2)
              (\<lambda>s3.
            bnd (reconcile_bank_accounts bank (get_trial_balance api d) s3) (\<lambda>s4.
            bnd (verify_open_items (get_open_ar api) (get_open_ap api) s4) (\<lambda>s5.
            bnd (validate_retained_earnings (get_balance_sheet_report api d)
                   (get_trial_balance api d) s5) (\<lambda>s6.
            bnd (raise_in s6 (generate_summary_balance_sheet (get_balance_sheet_report api d)))
              (\<lambda>summary_bs.
                 case summary_bs of
                   None \<Rightarrow> Inl (KeyError, s6)
                 | Some sm \<Rightarrow>
                     bnd (persist (case d of None \<Rightarrow> today | Some x \<Rightarrow> x) sm
                            (\<bar>total_assets sm - (total_liabilities sm + total_equity sm)\<bar>
                               < 0.01) s6) (\<lambda>s7.
                       Inr (\<lparr>summary_balance_sheet = sm,
                             res_adjustments = adjustments s7,
                             res_reconciliation_checks = reconciliation_checks s7,
                             is_balanced =
                               (\<bar>total_assets sm - (total_liabilities sm + total_equity sm)\<bar>
                                  < 0.01)\<rparr>, s7))))))))))"
  by (simp add: reconcile_def Let_def split: option.splits)

lemma reconcile_run_fails_ok:
  assumes "get_bank_accounts api = Some bank"
    and "py_truthy (get_trial_balance api d)" "py_truthy (get_balance_sheet_report api d)"
    and "py_truthy (get_chart_of_accounts api)"
  shows "run_fails_ok st (reconcile api today d st)"
  unfolding reconcile_split using assms
  apply simp
  apply (intro run_fails_ok_seq run_fails_ok_raise clean_intros keeps_validate_trial_balance
      keeps_verify_balance_sheet_totals keeps_check_account_balances
      keeps_reconcile_bank_accounts keeps_verify_open_items keeps_validate_retained_earnings)
  subgoal for s1 s2 s3 s4 s5 s6 x
    by (cases x) (simp_all add: run_fails_ok_persist, simp add: run_fails_ok_def)
  done

lemma reconcile_Inl_db:
  assumes "reconcile api today d st = Inl (e, s)"
  shows "e \<noteq> SQLAlchemyError \<longrightarrow> same_db st s"
    and "db_adjustments s = db_adjustments st"
    and "e = SQLAlchemyError \<longrightarrow>
           (\<exists>snap. db_snapshots s = db_snapshots st @ [snap]
              \<and> snap_id snap = Suc (length (db_snapshots st)))
           \<and> \<not> list_all (\<lambda>adj. storable (account_name adj)) (adjustments s)"
proof -
  have "(e \<noteq> SQLAlchemyError \<longrightarrow> same_db st s)
      \<and> db_adjustments s = db_adjustments st
      \<and> (e = SQLAlchemyError \<longrightarrow>
           (\<exists>snap. db_snapshots s = db_snapshots st @ [snap]
              \<and> snap_id snap = Suc (length (db_snapshots st)))
           \<and> \<not> list_all (\<lambda>adj. storable (account_name adj)) (adjustments s))"
  proof (cases "get_bank_accounts api")
    case None
    with assms show ?thesis by (simp add: reconcile_split same_db_def)
  next
    case (Some bank)
    show ?thesis
    proof (cases "py_truthy (get_trial_balance api d)
                 \<and> py_truthy (get_balance_sheet_report api d)
                 \<and> py_truthy (get_chart_of_accounts api)")
      case True
      with reconcile_run_fails_ok[OF Some, of d st today] assms show ?thesis
        by (auto simp: run_fails_ok_def same_db_def split: if_splits)
    next
      case False
      with Some assms show ?thesis by (auto simp: reconcile_split same_db_def)
    qed
  qed
  then show "e \<noteq> SQLAlchemyError \<longrightarrow> same_db st s"
    and "db_adjustments s = db_adjustments st"
    and "e = SQLAlchemyError \<longrightarrow>
           (\<exists>snap. db_snapshots s = db_snapshots st @ [snap]
              \<and> snap_id snap = Suc (length (db_snapshots st)))
           \<and> \<not> list_all (\<lambda>adj. storable (account_name adj)) (adjustments s)"
    by blast+
qed

text \<open>What a run that returns has gone through.\<close>

lemma reconcile_Inr_steps:
  assumes "reconcile api today d st = Inr (res, st')"
  obtains bank s1 s2 s3 s4 s5 s6 sm where
    "get_bank_accounts api = Some bank"
    "py_truthy (get_trial_balance api d)" "py_truthy (get_balance_sheet_report api d)"
    "py_truthy (get_chart_of_accounts api)"
    "validate_trial_balance (get_trial_balance api d) st = Inr s1"
    "verify_balance_sheet_totals (get_balance_sheet_report api d) s1 = Inr s2"
    "check_account_balances (get_chart_of_accounts api) (get_trial_balance api d) s2 = Inr s3"
    "reconcile_bank_accounts bank (get_trial_balance api d) s3 = Inr s4"
    "verify_open_items (get_open_ar api) (get_open_ap api) s4 = Inr s5"
    "validate_retained_earnings (get_balance_sheet_report api d) (get_trial_balance api d) s5
       = Inr s6"
    "generate_summary_balance_sheet (get_balance_sheet_report api d) = Inr (Some sm)"
    "same_db st s6"
    "res = \<lparr>summary_balance_sheet = sm,
            res_adjustments = adjustments s6,
            res_reconciliation_checks = reconciliation_checks s6,
            is_balanced =
              (\<bar>total_assets sm - (total_liabilities sm + total_equity sm)\<bar> < 0.01)\<rparr>"
    "persist (case d of None \<Rightarrow> today | Some x \<Rightarrow> x) sm
       (\<bar>total_assets sm - (total_liabilities sm + total_equity sm)\<bar> < 0.01) s6 = Inr st'"
proof -
  from assms obtain bank where bank: "get_bank_accounts api = Some bank"
    by (cases "get_bank_accounts api") (simp_all add: reconcile_split)
  from assms bank obtain s1 s2 s3 s4 s5 s6 sm where
    c1: "validate_trial_balance (get_trial_balance api d) st = Inr s1"
    and c2: "verify_balance_sheet_totals (get_balance_sheet_report api d) s1 = Inr s2"
    and c3: "check_account_balances (get_chart_of_accounts api) (get_trial_balance api d) s2
               = Inr s3"
    and c4: "reconcile_bank_accounts bank (get_trial_balance api d) s3 = Inr s4"
    and c5: "verify_open_items (get_open_ar api) (get_open_ap api) s4 = Inr s5"
    and c6: "validate_retained_earnings (get_balance_sheet_report api d)
               (get_trial_balance api d) s5 = Inr s6"
    and g: "generate_summary_balance_sheet (get_balance_sheet_report api d) = Inr (Some sm)"
    and t: "py_truthy (get_trial_balance api d)" "py_truthy (get_balance_sheet_report api d)"
           "py_truthy (get_chart_of_accounts api)"
    and p: "persist (case d of None \<Rightarrow> today | Some x \<Rightarrow> x) sm
              (\<bar>total_assets sm - (total_liabilities sm + total_equity sm)\<bar> < 0.01) s6 = Inr st'"
    and r: "res = \<lparr>summary_balance_sheet = sm,
                     res_adjustments = adjustments st',
                     res_reconciliation_checks = reconciliation_checks st',
                     is_balanced =
                       (\<bar>total_assets sm - (total_liabilities sm + total_equity sm)\<bar> < 0.01)\<rparr>"
    by (auto simp: reconcile_split bnd_eq_Inr raise_in_eq_Inr split: if_splits option.splits)
  have "same_db st s1"
    using keeps_validate_trial_balance[of st "get_trial_balance api d"] c1
    by (simp add: keeps_db_def)
  moreover have "same_db s1 s2"
    using keeps_verify_balance_sheet_totals[of s1 "get_balance_sheet_report api d"] c2
    by (simp add: keeps_db_def)
  moreover have "same_db s2 s3"
    using keeps_check_account_balances[of s2 "get_chart_of_accounts api"
            "get_trial_balance api d"] c3
    by (simp add: keeps_db_def)
  moreover have "same_db s3 s4"
    using keeps_reconcile_bank_accounts[of s3 bank "get_trial_balance api d"] c4
    by (simp add: keeps_db_def)
  moreover have "same_db s4 s5"
    using keeps_verify_open_items[of s4 "get_open_ar api" "get_open_ap api"] c5
    by (simp add: keeps_db_def)
  moreover have "same_db s5 s6"
    using keeps_validate_retained_earnings[of s5 "get_balance_sheet_report api d"
            "get_trial_balance api d"] c6
    by (simp add: keeps_db_def)
  ultimately have db: "same_db st s6"
    by (simp add: same_db_def)
  from r persist_Inr(2,3)[OF p]
  have "res = \<lparr>summary_balance_sheet = sm,
            res_adjustments = adjustments s6,
            res_reconciliation_checks = reconciliation_checks s6,
            is_balanced =
              (\<bar>total_assets sm - (total_liabilities sm + total_equity sm)\<bar> < 0.01)\<rparr>"
    by simp
  with that bank t c1 c2 c3 c4 c5 c6 g db p show ?thesis by blast
qed

section \<open>Required data\<close>

text \<open>
  C4, as the code has it. With a collaborator that has all six fetches, \<^verbatim>\<open>reconcile\<close> raises
  the required-data exception if and only if one of the trial balance, the balance sheet and
  the chart of accounts is falsy: \<^verbatim>\<open>None\<close>, but also an empty object, list or string,
  zero or \<^verbatim>\<open>False\<close>. It then raises before any check: the adjustments, the metrics and
  the database are as before the call. Open receivables, open payables and bank accounts that
  are \<^verbatim>\<open>None\<close> make their checks return without an adjustment.
\<close>

theorem reconcile_required_data:
  assumes "get_bank_accounts api = Some bank"
  shows "((\<exists>s. reconcile api today d st = Inl (DataUnavailable, s))
            \<longleftrightarrow> \<not> (py_truthy (get_trial_balance api d)
                     \<and> py_truthy (get_balance_sheet_report api d)
                     \<and> py_truthy (get_chart_of_accounts api)))
       \<and> (\<forall>s. reconcile api today d st = Inl (DataUnavailable, s) \<longrightarrow> s = st)
       \<and> reconcile_bank_accounts JNull tb s0 = Inr s0
       \<and> verify_open_items JNull JNull s0
           = Inr (set_check ''total_open_ap'' 0 (set_check ''total_open_ar'' 0 s0))"
proof (cases "py_truthy (get_trial_balance api d) \<and> py_truthy (get_balance_sheet_report api d)
                 \<and> py_truthy (get_chart_of_accounts api)")
  case True
  from reconcile_run_fails_ok[OF assms, of d st today] True
  have "\<And>s. reconcile api today d st \<noteq> Inl (DataUnavailable, s)"
    by (auto simp: run_fails_ok_def)
  with True show ?thesis
    by (simp add: reconcile_bank_accounts_def verify_open_items_def open_total_def
          raise_in_def bnd_def)
next
  case False
  with assms have "reconcile api today d st = Inl (DataUnavailable, st)"
    by (auto simp: reconcile_split)
  with False show ?thesis
    by (simp add: reconcile_bank_accounts_def verify_open_items_def open_total_def
          raise_in_def bnd_def)
qed

theorem reconcile_required_data_witness:
  "get_bank_accounts (api_of empty_sheet empty_sheet JNull) = Some JNull
   \<and> \<not> py_truthy (get_chart_of_accounts (api_of empty_sheet empty_sheet JNull))
   \<and> reconcile (api_of empty_sheet empty_sheet JNull) 0 None (init [] [])
       = Inl (DataUnavailable, init [] [])"
proof -
  have bank: "get_bank_accounts (api_of empty_sheet empty_sheet JNull) = Some JNull"
    by (simp add: api_of_def)
  have coa: "\<not> py_truthy (get_chart_of_accounts (api_of empty_sheet empty_sheet JNull))"
    by (simp add: api_of_def)
  from reconcile_required_data[OF bank, of 0 None "init [] []"] coa
  obtain s where s: "reconcile (api_of empty_sheet empty_sheet JNull) 0 None (init [] [])
       = Inl (DataUnavailable, s)"
    by blast
  with reconcile_required_data[OF bank, of 0 None "init [] []"] have "s = init [] []"
    by blast
  with s bank coa show ?thesis by blast
qed

text \<open>
  None of the three mandatory payloads is \<^verbatim>\<open>None\<close>, the trial balance being the empty
  object, and the run raises the required-data exception.
\<close>

theorem required_data_counterexample:
  "get_trial_balance (api_of (JDict []) empty_sheet empty_chart) None \<noteq> JNull
   \<and> get_balance_sheet_report (api_of (JDict []) empty_sheet empty_chart) None \<noteq> JNull
   \<and> get_chart_of_accounts (api_of (JDict []) empty_sheet empty_chart) \<noteq> JNull
   \<and> reconcile (api_of (JDict []) empty_sheet empty_chart) 0 None (init [] [])
       = Inl (DataUnavailable, init [] [])"
  by (simp add: api_of_def empty_sheet_def empty_chart_def reconcile_def)

section \<open>Persistence\<close>

text \<open>Runs on a fresh instance and an empty database, evaluated.\<close>

lemmas example_defs =
  petty_cash_api_def petty_cash_adjustment_def zero_checks_def zero_summary_def
  zero_snapshot_def after_first_run_def api_of_def empty_sheet_def empty_chart_def
  petty_cash_chart_def headed_report_def nameless_chart_def nameless_adjustment_def
  rowless_api_def rowless_checks_def

lemma first_run:
  "reconcile petty_cash_api 0 None (init [] [])
     = Inr (\<lparr>summary_balance_sheet = zero_summary,
             res_adjustments = [petty_cash_adjustment],
             res_reconciliation_checks = zero_checks,
             is_balanced = True\<rparr>, after_first_run)"
  by (simp add: reconcile_def example_defs check_defs)

lemma second_run:
  "reconcile petty_cash_api 0 None after_first_run
     = Inr (\<lparr>summary_balance_sheet = zero_summary,
             res_adjustments = [petty_cash_adjustment, petty_cash_adjustment],
             res_reconciliation_checks = zero_checks,
             is_balanced = True\<rparr>,
            \<lparr>adjustments = [petty_cash_adjustment, petty_cash_adjustment],
             reconciliation_checks = zero_checks,
             db_snapshots = [zero_snapshot 1 1, zero_snapshot 2 2],
             db_adjustments =
               [\<lparr>reconciliation_log_id = 1, row_fields = petty_cash_adjustment\<rparr>,
                \<lparr>reconciliation_log_id = 2, row_fields = petty_cash_adjustment\<rparr>,
                \<lparr>reconciliation_log_id = 2, row_fields = petty_cash_adjustment\<rparr>]\<rparr>)"
  by (simp add: reconcile_def example_defs check_defs)

lemma nameless_run:
  "reconcile (api_of empty_sheet empty_sheet nameless_chart) 0 None (init [] [])
     = Inl (SQLAlchemyError,
            \<lparr>adjustments = [nameless_adjustment],
             reconciliation_checks = zero_checks,
             db_snapshots = [zero_snapshot 1 1],
             db_adjustments = []\<rparr>)"
  by (simp add: reconcile_def example_defs check_defs)

text \<open>
  C5, as the code has it. \<^verbatim>\<open>reconcile\<close> itself persists: when it returns, it has added one
  snapshot row, holding the three totals, the balanced flag and the number of adjustments
  of the result, and one adjustment row, linked to the snapshot's id, for each adjustment
  of the result. When it raises, it has added no adjustment row; it has added no snapshot
  row either, unless the exception is the database's refusal of an adjustment row, one of
  the instance's adjustments having an account name that cannot be stored: then the
  snapshot, committed before, is in the database.
\<close>

theorem reconcile_persists:
  "(reconcile api today d st = Inr (res, st') \<longrightarrow>
      db_snapshots st' = db_snapshots st @
        [\<lparr>snap_id = Suc (length (db_snapshots st)),
          snap_date = (case d of None \<Rightarrow> today | Some x \<Rightarrow> x),
          snap_period = (case d of None \<Rightarrow> today | Some x \<Rightarrow> x),
          snap_total_assets = total_assets (summary_balance_sheet res),
          snap_total_liabilities = total_liabilities (summary_balance_sheet res),
          snap_total_equity = total_equity (summary_balance_sheet res),
          snap_is_balanced = is_balanced res,
          snap_adjustments_count = length (res_adjustments res),
          snap_status = ''completed''\<rparr>]
      \<and> db_adjustments st' = db_adjustments st @
          map (\<lambda>adj. \<lparr>reconciliation_log_id = Suc (length (db_snapshots st)),
                        row_fields = adj\<rparr>) (res_adjustments res))
   \<and> (reconcile api today d st = Inl (e, s) \<longrightarrow>
        db_adjustments s = db_adjustments st
        \<and> (e \<noteq> SQLAlchemyError \<longrightarrow> db_snapshots s = db_snapshots st)
        \<and> (e = SQLAlchemyError \<longrightarrow>
             (\<exists>snap. db_snapshots s = db_snapshots st @ [snap]
                \<and> snap_id snap = Suc (length (db_snapshots st)))
             \<and> \<not> list_all (\<lambda>adj. storable (account_name adj)) (adjustments s)))"
proof (intro conjI impI)
  assume l: "reconcile api today d st = Inl (e, s)"
  show "db_adjustments s = db_adjustments st"
    by (rule reconcile_Inl_db(2)[OF l])
  {
    assume "e \<noteq> SQLAlchemyError"
    with reconcile_Inl_db(1)[OF l] show "db_snapshots s = db_snapshots st"
      by (simp add: same_db_def)
  }
  {
    assume e: "e = SQLAlchemyError"
    with reconcile_Inl_db(3)[OF l]
    show "\<exists>snap. db_snapshots s = db_snapshots st @ [snap]
                \<and> snap_id snap = Suc (length (db_snapshots st))"
      by blast
    from e reconcile_Inl_db(3)[OF l]
    show "\<not> list_all (\<lambda>adj. storable (account_name adj)) (adjustments s)"
      by blast
  }
next
  assume r: "reconcile api today d st = Inr (res, st')"
  from r obtain s6 sm where
    db: "same_db st s6"
    and res: "res = \<lparr>summary_balance_sheet = sm,
                     res_adjustments = adjustments s6,
                     res_reconciliation_checks = reconciliation_checks s6,
                     is_balanced =
                       (\<bar>total_assets sm - (total_liabilities sm + total_equity sm)\<bar> < 0.01)\<rparr>"
    and p: "persist (case d of None \<Rightarrow> today | Some x \<Rightarrow> x) sm
              (\<bar>total_assets sm - (total_liabilities sm + total_equity sm)\<bar> < 0.01) s6 = Inr st'"
    by (rule reconcile_Inr_steps)
  from persist_Inr(4)[OF p] db res
  show "db_snapshots st' = db_snapshots st @
        [\<lparr>snap_id = Suc (length (db_snapshots st)),
          snap_date = (case d of None \<Rightarrow> today | Some x \<Rightarrow> x),
          snap_period = (case d of None \<Rightarrow> today | Some x \<Rightarrow> x),
          snap_total_assets = total_assets (summary_balance_sheet res),
          snap_total_liabilities = total_liabilities (summary_balance_sheet res),
          snap_total_equity = total_equity (summary_balance_sheet res),
          snap_is_balanced = is_balanced res,
          snap_adjustments_count = length (res_adjustments res),
          snap_status = ''completed''\<rparr>]"
    by (simp add: same_db_def)
  from persist_Inr(5)[OF p] db res
  show "db_adjustments st' = db_adjustments st @
          map (\<lambda>adj. \<lparr>reconciliation_log_id = Suc (length (db_snapshots st)),
                        row_fields = adj\<rparr>) (res_adjustments res)"
    by (simp add: same_db_def)
qed

theorem reconcile_persists_witness:
  "reconcile petty_cash_api 0 None (init [] [])
     = Inr (\<lparr>summary_balance_sheet = zero_summary,
             res_adjustments = [petty_cash_adjustment],
             res_reconciliation_checks = zero_checks,
             is_balanced = True\<rparr>, after_first_run)
   \<and> db_snapshots after_first_run = [zero_snapshot 1 1]
   \<and> db_adjustments after_first_run
       = [\<lparr>reconciliation_log_id = 1, row_fields = petty_cash_adjustment\<rparr>]
   \<and> reconcile (api_of empty_sheet empty_sheet nameless_chart) 0 None (init [] [])
       = Inl (SQLAlchemyError,
              \<lparr>adjustments = [nameless_adjustment],
               reconciliation_checks = zero_checks,
               db_snapshots = [zero_snapshot 1 1],
               db_adjustments = []\<rparr>)
   \<and> \<not> list_all (\<lambda>adj. storable (account_name adj)) [nameless_adjustment]"
proof -
  from reconcile_persists[of petty_cash_api 0 None "init [] []" _ after_first_run] first_run
  have "db_snapshots after_first_run = db_snapshots (init [] []) @
        [\<lparr>snap_id = Suc (length (db_snapshots (init [] []))),
          snap_date = 0, snap_period = 0,
          snap_total_assets = total_assets zero_summary,
          snap_total_liabilities = total_liabilities zero_summary,
          snap_total_equity = total_equity zero_summary,
          snap_is_balanced = True,
          snap_adjustments_count = length [petty_cash_adjustment],
          snap_status = ''completed''\<rparr>]
      \<and> db_adjustments after_first_run = db_adjustments (init [] []) @
          map (\<lambda>adj. \<lparr>reconciliation_log_id = Suc (length (db_snapshots (init [] []))),
                        row_fields = adj\<rparr>) [petty_cash_adjustment]"
    by simp
  then have a: "db_snapshots after_first_run = [zero_snapshot 1 1]
     \<and> db_adjustments after_first_run
       = [\<lparr>reconciliation_log_id = 1, row_fields = petty_cash_adjustment\<rparr>]"
    by (simp add: init_def zero_snapshot_def zero_summary_def with_totals_def empty_buckets_def)
  from reconcile_persists[of "api_of empty_sheet empty_sheet nameless_chart" 0 None
         "init [] []" _ _ SQLAlchemyError
         "\<lparr>adjustments = [nameless_adjustment],
           reconciliation_checks = zero_checks,
           db_snapshots = [zero_snapshot 1 1],
           db_adjustments = []\<rparr>"] nameless_run
  have b: "\<not> list_all (\<lambda>adj. storable (account_name adj)) [nameless_adjustment]"
    by simp
  from first_run a nameless_run b show ?thesis by blast
qed

text \<open>
  A run on a fresh instance with an empty database returns a result and leaves one snapshot
  row and one adjustment row in the database.
\<close>

theorem persistence_counterexample:
  "returned (reconcile petty_cash_api 0 None (init [] [])) \<noteq> None
   \<and> db_snapshots (init [] []) = []
   \<and> db_snapshots (final_state (reconcile petty_cash_api 0 None (init [] [])))
       = [zero_snapshot 1 1]
   \<and> db_adjustments (final_state (reconcile petty_cash_api 0 None (init [] [])))
       = [\<lparr>reconciliation_log_id = 1, row_fields = petty_cash_adjustment\<rparr>]"
  unfolding first_run
  by (simp add: returned_def final_state_def after_first_run_def init_def)

section \<open>An exception inside a check\<close>

text \<open>
  C7, as the code has it. \<^verbatim>\<open>reconcile\<close> catches nothing: once the mandatory payloads are
  there, an exception raised by any one of the six checks leaves \<^verbatim>\<open>reconcile\<close> as it is,
  with the state of that moment, so the checks after it have not run and no result is
  returned.
\<close>

theorem check_exception_leaves_reconcile:
  assumes "get_bank_accounts api = Some bank"
    and "py_truthy (get_trial_balance api d)"
    and "py_truthy (get_balance_sheet_report api d)"
    and "py_truthy (get_chart_of_accounts api)"
  shows "(validate_trial_balance (get_trial_balance api d) st = Inl x
            \<longrightarrow> reconcile api today d st = Inl x)
       \<and> (validate_trial_balance (get_trial_balance api d) st = Inr s1
          \<and> verify_balance_sheet_totals (get_balance_sheet_report api d) s1 = Inl x
            \<longrightarrow> reconcile api today d st = Inl x)
       \<and> (validate_trial_balance (get_trial_balance api d) st = Inr s1
          \<and> verify_balance_sheet_totals (get_balance_sheet_report api d) s1 = Inr s2
          \<and> check_account_balances (get_chart_of_accounts api) (get_trial_balance api d) s2
              = Inl x
            \<longrightarrow> reconcile api today d st = Inl x)
       \<and> (validate_trial_balance (get_trial_balance api d) st = Inr s1
          \<and> verify_balance_sheet_totals (get_balance_sheet_report api d) s1 = Inr s2
          \<and> check_account_balances (get_chart_of_accounts api) (get_trial_balance api d) s2
              = Inr s3
          \<and> reconcile_bank_accounts bank (get_trial_balance api d) s3 = Inl x
            \<longrightarrow> reconcile api today d st = Inl x)
       \<and> (validate_trial_balance (get_trial_balance api d) st = Inr s1
          \<and> verify_balance_sheet_totals (get_balance_sheet_report api d) s1 = Inr s2
          \<and> check_account_balances (get_chart_of_accounts api) (get_trial_balance api d) s2
              = Inr s3
          \<and> reconcile_bank_accounts bank (get_trial_balance api d) s3 = Inr s4
          \<and> verify_open_items (get_open_ar api) (get_open_ap api) s4 = Inl x
            \<longrightarrow> reconcile api today d st = Inl x)
       \<and> (validate_trial_balance (get_trial_balance api d) st = Inr s1
          \<and> verify_balance_sheet_totals (get_balance_sheet_report api d) s1 = Inr s2
          \<and> check_account_balances (get_chart_of_accounts api) (get_trial_balance api d) s2
              = Inr s3
          \<and> reconcile_bank_accounts bank (get_trial_balance api d) s3 = Inr s4
          \<and> verify_open_items (get_open_ar api) (get_open_ap api) s4 = Inr s5
          \<and> validate_retained_earnings (get_balance_sheet_report api d)
               (get_trial_balance api d) s5 = Inl x
            \<longrightarrow> reconcile api today d st = Inl x)"
  using assms by (simp add: reconcile_split bnd_def)

text \<open>
  The trial balance check raises \<^verbatim>\<open>TypeError\<close> on a Debit column whose value is
  \<^verbatim>\<open>None\<close>; the run raises it and the account balance check, which on the same chart of
  accounts appends a correction, has not run.
\<close>

theorem check_isolation_counterexample:
  "reconcile (api_of null_debit_report empty_sheet petty_cash_chart) 0 None (init [] [])
     = Inl (TypeError, init [] [])
   \<and> adjustments (init [] []) = []
   \<and> check_account_balances petty_cash_chart null_debit_report (init [] [])
       = Inr ((init [] [])\<lparr>adjustments := [petty_cash_adjustment]\<rparr>)"
proof (intro conjI)
  show "reconcile (api_of null_debit_report empty_sheet petty_cash_chart) 0 None (init [] [])
     = Inl (TypeError, init [] [])"
    by (simp add: reconcile_def null_debit_report_def example_defs check_defs)
  show "adjustments (init [] []) = []"
    by (simp add: init_def)
  show "check_account_balances petty_cash_chart null_debit_report (init [] [])
       = Inr ((init [] [])\<lparr>adjustments := [petty_cash_adjustment]\<rparr>)"
    by (simp add: example_defs check_defs)
qed

theorem check_exception_leaves_reconcile_witness:
  "get_bank_accounts (api_of scenario_b empty_sheet text_balance_chart) = Some JNull
   \<and> py_truthy scenario_b \<and> py_truthy empty_sheet \<and> py_truthy text_balance_chart
   \<and> validate_trial_balance scenario_b (init [] [])
       = Inr (append_adjustment
                \<lparr>account_name = JStr ''Trial Balance Adjustment'',
                 original_amount = 500, adjusted_amount = 0, adjustment_amount = - 500,
                 reason = ''Trial balance out of balance by $500.00'',
                 adjustment_type = ''correction''\<rparr>
                (set_check ''trial_balance_difference'' 500 (init [] [])))
   \<and> reconcile (api_of scenario_b empty_sheet text_balance_chart) 0 None (init [] [])
       = Inl (TypeError,
              set_check ''balance_sheet_difference'' 0
                (append_adjustment
                   \<lparr>account_name = JStr ''Trial Balance Adjustment'',
                    original_amount = 500, adjusted_amount = 0, adjustment_amount = - 500,
                    reason = ''Trial balance out of balance by $500.00'',
                    adjustment_type = ''correction''\<rparr>
                   (set_check ''trial_balance_difference'' 500 (init [] []))))"
proof -
  let ?api = "api_of scenario_b empty_sheet text_balance_chart"
  let ?s1 = "append_adjustment
                \<lparr>account_name = JStr ''Trial Balance Adjustment'',
                 original_amount = 500, adjusted_amount = 0, adjustment_amount = - 500,
                 reason = ''Trial balance out of balance by $500.00'',
                 adjustment_type = ''correction''\<rparr>
                (set_check ''trial_balance_difference'' 500 (init [] []))"
  let ?s2 = "set_check ''balance_sheet_difference'' 0 ?s1"
  have bank: "get_bank_accounts ?api = Some JNull" by (simp add: api_of_def)
  have t1: "py_truthy (get_trial_balance ?api None)"
    by (simp add: api_of_def scenario_b_def)
  have t2: "py_truthy (get_balance_sheet_report ?api None)"
    by (simp add: api_of_def empty_sheet_def)
  have t3: "py_truthy (get_chart_of_accounts ?api)"
    by (simp add: api_of_def text_balance_chart_def)
  have c1: "validate_trial_balance (get_trial_balance ?api None) (init [] []) = Inr ?s1"
    by (simp add: api_of_def scenario_b_def check_defs fmt_defs)
  have c2: "verify_balance_sheet_totals (get_balance_sheet_report ?api None) ?s1 = Inr ?s2"
    by (simp add: api_of_def empty_sheet_def check_defs)
  have c3: "check_account_balances (get_chart_of_accounts ?api) (get_trial_balance ?api None) ?s2
              = Inl (TypeError, ?s2)"
    by (simp add: api_of_def text_balance_chart_def check_defs)
  from check_exception_leaves_reconcile[OF bank t1 t2 t3,
         of "init [] []" "(TypeError, ?s2)" 0 ?s1 ?s2] c1 c2 c3
  have "reconcile ?api 0 None (init [] []) = Inl (TypeError, ?s2)"
    by blast
  moreover from c1 have "validate_trial_balance scenario_b (init [] []) = Inr ?s1"
    by (simp add: api_of_def)
  moreover from t1 t2 t3 have "py_truthy scenario_b \<and> py_truthy empty_sheet
      \<and> py_truthy text_balance_chart"
    by (simp add: api_of_def)
  ultimately show ?thesis using bank by blast
qed

section \<open>A second run on the same instance\<close>

text \<open>
  A check does on an instance that already holds adjustments and metrics what it does on
  one that holds none, after them.
\<close>

lemma carry_set_check: "carry xs m (set_check k v s) = set_check k v (carry xs m s)"
  by (simp add: carry_def set_check_def)

lemma carry_append: "carry xs m (append_adjustment a s) = append_adjustment a (carry xs m s)"
  by (simp add: carry_def append_adjustment_def)

lemma carry_outcome_Inr: "carry_outcome xs m (Inr s) = Inr (carry xs m s)"
  by (simp add: carry_outcome_def)

lemma carry_outcome_Inl: "carry_outcome xs m (Inl (e, s)) = Inl (e, carry xs m s)"
  by (simp add: carry_outcome_def)

lemma carry_outcome_Inr_D:
  "carry_outcome xs m r = Inr s' \<Longrightarrow> \<exists>s. r = Inr s \<and> s' = carry xs m s"
  by (cases r) (simp_all add: carry_outcome_def)

lemma for_loop_carry:
  assumes "\<And>x s. body x (carry xs m s) = carry_outcome xs m (body x s)"
  shows "for_loop body ys (carry xs m s) = carry_outcome xs m (for_loop body ys s)"
proof (induction ys arbitrary: s)
  case Nil
  show ?case by (simp add: carry_outcome_def)
next
  case (Cons y ys)
  show ?case
  proof (cases "body y s")
    case (Inl z)
    with assms[of y s] show ?thesis by (simp add: bnd_def carry_outcome_def)
  next
    case (Inr s1)
    with assms[of y s] Cons.IH[of s1] show ?thesis by (simp add: bnd_def carry_outcome_def)
  qed
qed

lemmas carry_simps =
  carry_set_check carry_append carry_outcome_def raise_in_def bnd_def Let_def

lemma validate_trial_balance_carry:
  "validate_trial_balance tb (carry xs m st)
     = carry_outcome xs m (validate_trial_balance tb st)"
  by (simp add: validate_trial_balance_def carry_simps split: sum.splits)

lemma verify_balance_sheet_totals_carry:
  "verify_balance_sheet_totals bs (carry xs m st)
     = carry_outcome xs m (verify_balance_sheet_totals bs st)"
  by (simp add: verify_balance_sheet_totals_def carry_simps split: sum.splits prod.splits)

lemma check_account_carry:
  "check_account a (carry xs m st) = carry_outcome xs m (check_account a st)"
  by (simp add: check_account_def carry_simps split: sum.splits)

lemma check_account_balances_carry:
  "check_account_balances coa tb (carry xs m st)
     = carry_outcome xs m (check_account_balances coa tb st)"
  by (simp add: check_account_balances_def
        for_loop_carry[of check_account, OF check_account_carry]
        raise_in_def bnd_def carry_outcome_Inr carry_outcome_Inl split: sum.splits)

lemma bank_account_carry:
  "bank_account a (carry xs m st) = carry_outcome xs m (bank_account a st)"
  by (simp add: bank_account_def carry_simps split: sum.splits)

lemma reconcile_bank_accounts_carry:
  "reconcile_bank_accounts bank tb (carry xs m st)
     = carry_outcome xs m (reconcile_bank_accounts bank tb st)"
  by (simp add: reconcile_bank_accounts_def
        for_loop_carry[of bank_account, OF bank_account_carry]
        raise_in_def bnd_def carry_outcome_Inr carry_outcome_Inl split: sum.splits)

lemma verify_open_items_carry:
  "verify_open_items ar ap (carry xs m st) = carry_outcome xs m (verify_open_items ar ap st)"
  by (simp add: verify_open_items_def carry_simps split: sum.splits)

lemma validate_retained_earnings_carry:
  "validate_retained_earnings bs tb (carry xs m st)
     = carry_outcome xs m (validate_retained_earnings bs tb st)"
  by (simp add: validate_retained_earnings_def carry_simps split: sum.splits)

lemma reconcile_carry:
  assumes "reconcile api today d (carry xs m s0) = Inr (res, st')"
  shows "\<exists>res0 st0. reconcile api today d s0 = Inr (res0, st0)
           \<and> res_adjustments res = xs @ res_adjustments res0
           \<and> res_reconciliation_checks res = m ++ res_reconciliation_checks res0
           \<and> summary_balance_sheet res = summary_balance_sheet res0
           \<and> is_balanced res = is_balanced res0
           \<and> adjustments st' = res_adjustments res
           \<and> reconciliation_checks st' = res_reconciliation_checks res
           \<and> db_adjustments st' = db_adjustments s0 @
               map (\<lambda>adj. \<lparr>reconciliation_log_id = Suc (length (db_snapshots s0)),
                             row_fields = adj\<rparr>) (xs @ res_adjustments res0)"
proof -
  let ?day = "case d of None \<Rightarrow> today | Some x \<Rightarrow> x"
  from assms obtain bank t1 t2 t3 t4 t5 t6 sm where
    bank: "get_bank_accounts api = Some bank"
    and t: "py_truthy (get_trial_balance api d)" "py_truthy (get_balance_sheet_report api d)"
           "py_truthy (get_chart_of_accounts api)"
    and c1: "validate_trial_balance (get_trial_balance api d) (carry xs m s0) = Inr t1"
    and c2: "verify_balance_sheet_totals (get_balance_sheet_report api d) t1 = Inr t2"
    and c3: "check_account_balances (get_chart_of_accounts api) (get_trial_balance api d) t2
               = Inr t3"
    and c4: "reconcile_bank_accounts bank (get_trial_balance api d) t3 = Inr t4"
    and c5: "verify_open_items (get_open_ar api) (get_open_ap api) t4 = Inr t5"
    and c6: "validate_retained_earnings (get_balance_sheet_report api d)
               (get_trial_balance api d) t5 = Inr t6"
    and g: "generate_summary_balance_sheet (get_balance_sheet_report api d) = Inr (Some sm)"
    and db: "same_db (carry xs m s0) t6"
    and r: "res = \<lparr>summary_balance_sheet = sm,
                     res_adjustments = adjustments t6,
                     res_reconciliation_checks = reconciliation_checks t6,
                     is_balanced =
                       (\<bar>total_assets sm - (total_liabilities sm + total_equity sm)\<bar> < 0.01)\<rparr>"
    and p: "persist ?day sm
              (\<bar>total_assets sm - (total_liabilities sm + total_equity sm)\<bar> < 0.01) t6 = Inr st'"
    by (rule reconcile_Inr_steps)
  from c1 obtain s1 where
    b1: "validate_trial_balance (get_trial_balance api d) s0 = Inr s1" and e1: "t1 = carry xs m s1"
    using carry_outcome_Inr_D by (fastforce simp: validate_trial_balance_carry)
  from c2 e1 obtain s2 where
    b2: "verify_balance_sheet_totals (get_balance_sheet_report api d) s1 = Inr s2"
    and e2: "t2 = carry xs m s2"
    using carry_outcome_Inr_D by (fastforce simp: verify_balance_sheet_totals_carry)
  from c3 e2 obtain s3 where
    b3: "check_account_balances (get_chart_of_accounts api) (get_trial_balance api d) s2
           = Inr s3"
    and e3: "t3 = carry xs m s3"
    using carry_outcome_Inr_D by (fastforce simp: check_account_balances_carry)
  from c4 e3 obtain s4 where
    b4: "reconcile_bank_accounts bank (get_trial_balance api d) s3 = Inr s4"
    and e4: "t4 = carry xs m s4"
    using carry_outcome_Inr_D by (fastforce simp: reconcile_bank_accounts_carry)
  from c5 e4 obtain s5 where
    b5: "verify_open_items (get_open_ar api) (get_open_ap api) s4 = Inr s5"
    and e5: "t5 = carry xs m s5"
    using carry_outcome_Inr_D by (fastforce simp: verify_open_items_carry)
  from c6 e5 obtain s6 where
    b6: "validate_retained_earnings (get_balance_sheet_report api d)
           (get_trial_balance api d) s5 = Inr s6"
    and e6: "t6 = carry xs m s6"
    using carry_outcome_Inr_D by (fastforce simp: validate_retained_earnings_carry)
  from db e6 have db0: "same_db s0 s6"
    by (simp add: same_db_def carry_def)
  from persist_Inr(1)[OF p] e6
  have ok: "list_all (\<lambda>adj. storable (account_name adj)) (adjustments s6)"
    by (simp add: carry_def)
  then obtain st0 where
    p0: "persist ?day sm
           (\<bar>total_assets sm - (total_liabilities sm + total_equity sm)\<bar> < 0.01) s6 = Inr st0"
    by (simp add: persist_def Let_def)
  let ?res0 = "\<lparr>summary_balance_sheet = sm,
                res_adjustments = adjustments s6,
                res_reconciliation_checks = reconciliation_checks s6,
                is_balanced =
                  (\<bar>total_assets sm - (total_liabilities sm + total_equity sm)\<bar> < 0.01)\<rparr>"
  have run0: "reconcile api today d s0 = Inr (?res0, st0)"
    using persist_Inr(2,3)[OF p0] p0
    by (simp add: reconcile_split bank t b1 b2 b3 b4 b5 b6 g bnd_Inr raise_in_def)
  have "res_adjustments res = xs @ res_adjustments ?res0"
    "res_reconciliation_checks res = m ++ res_reconciliation_checks ?res0"
    "summary_balance_sheet res = summary_balance_sheet ?res0"
    "is_balanced res = is_balanced ?res0"
    using r e6 by (simp_all add: carry_def)
  moreover have "adjustments st' = res_adjustments res"
    "reconciliation_checks st' = res_reconciliation_checks res"
    using persist_Inr(2,3)[OF p] r by simp_all
  moreover have "db_adjustments st' = db_adjustments s0 @
               map (\<lambda>adj. \<lparr>reconciliation_log_id = Suc (length (db_snapshots s0)),
                             row_fields = adj\<rparr>) (xs @ res_adjustments ?res0)"
    using persist_Inr(5)[OF p] e6 db0 by (simp add: carry_def same_db_def)
  ultimately show ?thesis using run0 by blast
qed

text \<open>
  C9, as the code has it. The adjustment list and the metrics map belong to the instance:
  \<^verbatim>\<open>__init__\<close> creates them and \<^verbatim>\<open>reconcile\<close> never clears them. Whatever the instance
  holds before a call that returns, the same call on a fresh instance returns too, and the
  result on the used instance is what the instance held followed by what the fresh run
  returns: the earlier adjustments, then the new ones; the earlier metrics, overridden by
  the new ones. The instance holds that list and that map after the call, and all the
  adjustments, the earlier ones included, are stored again under the new snapshot.
\<close>

theorem reconcile_keeps_instance_state:
  assumes "reconcile api today d st = Inr (res, st')"
  shows "\<exists>res0 st0.
           reconcile api today d (init (db_snapshots st) (db_adjustments st)) = Inr (res0, st0)
           \<and> res_adjustments res = adjustments st @ res_adjustments res0
           \<and> res_reconciliation_checks res
               = reconciliation_checks st ++ res_reconciliation_checks res0
           \<and> adjustments st' = res_adjustments res
           \<and> reconciliation_checks st' = res_reconciliation_checks res
           \<and> db_adjustments st' = db_adjustments st @
               map (\<lambda>adj. \<lparr>reconciliation_log_id = Suc (length (db_snapshots st)),
                             row_fields = adj\<rparr>) (adjustments st @ res_adjustments res0)"
proof -
  have "st = carry (adjustments st) (reconciliation_checks st)
               (init (db_snapshots st) (db_adjustments st))"
    by (simp add: carry_def init_def)
  with assms have "reconcile api today d
      (carry (adjustments st) (reconciliation_checks st)
         (init (db_snapshots st) (db_adjustments st))) = Inr (res, st')"
    by simp
  from reconcile_carry[OF this] show ?thesis
    by (auto simp: init_def)
qed

text \<open>
  After the first run, a run whose trial balance has no \<^verbatim>\<open>'Rows'\<close>: the result holds the
  adjustment and the \<^verbatim>\<open>trial_balance_difference\<close> of the first run, which the same run on
  a fresh instance does not produce.
\<close>

lemma rowless_second_run:
  "reconcile rowless_api 0 None after_first_run
     = Inr (\<lparr>summary_balance_sheet = zero_summary,
             res_adjustments = [petty_cash_adjustment],
             res_reconciliation_checks = zero_checks,
             is_balanced = True\<rparr>,
            \<lparr>adjustments = [petty_cash_adjustment],
             reconciliation_checks = zero_checks,
             db_snapshots = [zero_snapshot 1 1, zero_snapshot 2 1],
             db_adjustments =
               [\<lparr>reconciliation_log_id = 1, row_fields = petty_cash_adjustment\<rparr>,
                \<lparr>reconciliation_log_id = 2, row_fields = petty_cash_adjustment\<rparr>]\<rparr>)"
  by (simp add: reconcile_def example_defs check_defs fun_eq_iff)

lemma rowless_fresh_run:
  "reconcile rowless_api 0 None
     (init [zero_snapshot 1 1]
        [\<lparr>reconciliation_log_id = 1, row_fields = petty_cash_adjustment\<rparr>])
     = Inr (\<lparr>summary_balance_sheet = zero_summary,
             res_adjustments = [],
             res_reconciliation_checks = rowless_checks,
             is_balanced = True\<rparr>,
            \<lparr>adjustments = [],
             reconciliation_checks = rowless_checks,
             db_snapshots = [zero_snapshot 1 1, zero_snapshot 2 0],
             db_adjustments =
               [\<lparr>reconciliation_log_id = 1, row_fields = petty_cash_adjustment\<rparr>]\<rparr>)"
  by (simp add: reconcile_def example_defs check_defs)

theorem reconcile_keeps_instance_state_witness:
  "reconcile rowless_api 0 None after_first_run
     = Inr (\<lparr>summary_balance_sheet = zero_summary,
             res_adjustments = [petty_cash_adjustment],
             res_reconciliation_checks = zero_checks,
             is_balanced = True\<rparr>,
            \<lparr>adjustments = [petty_cash_adjustment],
             reconciliation_checks = zero_checks,
             db_snapshots = [zero_snapshot 1 1, zero_snapshot 2 1],
             db_adjustments =
               [\<lparr>reconciliation_log_id = 1, row_fields = petty_cash_adjustment\<rparr>,
                \<lparr>reconciliation_log_id = 2, row_fields = petty_cash_adjustment\<rparr>]\<rparr>)
   \<and> reconcile rowless_api 0 None
        (init (db_snapshots after_first_run) (db_adjustments after_first_run))
       = Inr (\<lparr>summary_balance_sheet = zero_summary,
               res_adjustments = [],
               res_reconciliation_checks = rowless_checks,
               is_balanced = True\<rparr>,
              \<lparr>adjustments = [],
               reconciliation_checks = rowless_checks,
               db_snapshots = [zero_snapshot 1 1, zero_snapshot 2 0],
               db_adjustments =
                 [\<lparr>reconciliation_log_id = 1, row_fields = petty_cash_adjustment\<rparr>]\<rparr>)
   \<and> [petty_cash_adjustment] = adjustments after_first_run @ []
   \<and> zero_checks = reconciliation_checks after_first_run ++ rowless_checks
   \<and> zero_checks ''trial_balance_difference'' = Some 0
   \<and> rowless_checks ''trial_balance_difference'' = None"
proof -
  have fresh: "reconcile rowless_api 0 None
        (init (db_snapshots after_first_run) (db_adjustments after_first_run))
       = Inr (\<lparr>summary_balance_sheet = zero_summary,
               res_adjustments = [],
               res_reconciliation_checks = rowless_checks,
               is_balanced = True\<rparr>,
              \<lparr>adjustments = [],
               reconciliation_checks = rowless_checks,
               db_snapshots = [zero_snapshot 1 1, zero_snapshot 2 0],
               db_adjustments =
                 [\<lparr>reconciliation_log_id = 1, row_fields = petty_cash_adjustment\<rparr>]\<rparr>)"
    using rowless_fresh_run by (simp add: after_first_run_def)
  from reconcile_keeps_instance_state[OF rowless_second_run] fresh
  have "[petty_cash_adjustment] = adjustments after_first_run @ []
      \<and> zero_checks = reconciliation_checks after_first_run ++ rowless_checks"
    by auto
  moreover have "zero_checks ''trial_balance_difference'' = Some 0"
    "rowless_checks ''trial_balance_difference'' = None"
    by (simp_all add: zero_checks_def rowless_checks_def)
  ultimately show ?thesis using rowless_second_run fresh by blast
qed

text \<open>
  Two calls in a row on one instance: the second result holds the adjustment of the first
  run before its own, and the database then holds it three times.
\<close>

theorem second_run_counterexample:
  "map_option res_adjustments (returned (reconcile petty_cash_api 0 None (init [] [])))
     = Some [petty_cash_adjustment]
   \<and> map_option res_adjustments
       (returned (reconcile petty_cash_api 0 None
          (final_state (reconcile petty_cash_api 0 None (init [] [])))))
     = Some [petty_cash_adjustment, petty_cash_adjustment]
   \<and> map reconciliation_log_id
       (db_adjustments (final_state (reconcile petty_cash_api 0 None
          (final_state (reconcile petty_cash_api 0 None (init [] []))))))
     = [1, 2, 2]"
  unfolding first_run
  by (simp add: returned_def final_state_def second_run)

end
